theory Spec2Isabelle
  imports Complex_Main "HOL-Library.Monad_Syntax" "HOL-Library.Multiset"
    "HOL-Library.Char_ord" "HOL-Library.List_Lexorder"
begin

section \<open>Data model (schemas.ts)\<close>

text \<open>
  A name map is a JavaScript object \<open>Record<string, string>\<close>: an association list in
  insertion order; \<open>name[lang]\<close> is \<open>map_of name lang\<close>, with \<open>None\<close> for
  \<open>undefined\<close>. Only own properties are modelled: a language tag that names a property
  of \<open>Object.prototype\<close> is outside the model, and so is the place JavaScript gives to
  integer-like keys when it lists an object. Coordinates are JavaScript numbers; the code
  only copies them and tests them for presence, so they are modelled as reals. An optional
  field is an \<open>option\<close>.
\<close>

type_synonym names = "(string \<times> string) list"

record City =
  city_name :: names
  city_latitude :: "real option"
  city_longitude :: "real option"

record Region =
  region_code :: string
  region_name :: names
  region_cities :: "City list"

record CountryData =
  code :: string
  iso3 :: "string option"
  name :: names
  phone :: string
  currency :: string
  timezone :: string
  flag :: string
  regions :: "Region list"

record GeoDataConfig =
  outputDir :: string
  languages :: "string list"
  includeCoordinates :: bool
  typescript :: bool

section \<open>DataFilter: filterCountryData (registry.ts)\<close>

text \<open>
  JavaScript truthiness of a property of a name map: \<open>undefined\<close> and the empty
  string are falsy, every other string is truthy.
\<close>

definition truthy_prop :: "string option \<Rightarrow> bool" where
  "truthy_prop v = (case v of None \<Rightarrow> False | Some s \<Rightarrow> s \<noteq> [])"

text \<open>
  \<open>filtered[lang] = v\<close> on an ordinary object: an existing key keeps its place and
  takes the new value, a new key is added at the end.
\<close>

fun assign :: "string \<Rightarrow> 'v \<Rightarrow> (string \<times> 'v) list \<Rightarrow> (string \<times> 'v) list" where
  "assign k v [] = [(k, v)]"
| "assign k v (p # ps) = (if fst p = k then (k, v) # ps else p # assign k v ps)"

text \<open>
  The inner arrow function \<open>filterName\<close>, with \<open>config.languages\<close> as a parameter. It
  reads \<open>name[lang]\<close> among the own properties of the name map, which is what the code
  does for every language tag that does not name a member of \<open>Object.prototype\<close>;
  \<open>filterName_proto\<close> below follows the lookup through the prototype for the other tags.
\<close>

definition filterName :: "string list \<Rightarrow> names \<Rightarrow> names" where
  "filterName langs nm =
     (let filtered =
            fold (\<lambda>lang filtered.
                    if truthy_prop (map_of nm lang)
                    then assign lang (the (map_of nm lang)) filtered
                    else filtered)
                 langs [];
          filtered =
            (if \<not> truthy_prop (map_of filtered ''en'') \<and> truthy_prop (map_of nm ''en'')
             then assign ''en'' (the (map_of nm ''en'')) filtered
             else filtered)
      in filtered)"

definition filterCountryData :: "CountryData \<Rightarrow> GeoDataConfig \<Rightarrow> CountryData" where
  "filterCountryData data config =
     data\<lparr>name := filterName (languages config) (name data),
          regions :=
            map (\<lambda>region.
                   region\<lparr>region_name := filterName (languages config) (region_name region),
                          region_cities :=
                            map (\<lambda>city.
                                   let filteredCity =
                                         \<lparr>city_name = filterName (languages config) (city_name city),
                                          city_latitude = None, city_longitude = None\<rparr>
                                   in if includeCoordinates config \<and> city_latitude city \<noteq> None
                                         \<and> city_longitude city \<noteq> None
                                      then filteredCity\<lparr>city_latitude := city_latitude city,
                                                        city_longitude := city_longitude city\<rparr>
                                      else filteredCity)
                                (region_cities region)\<rparr>)
                (regions data)\<rparr>"

section \<open>Untyped payloads and the schemas (schemas.ts)\<close>

text \<open>
  A payload read with \<open>fs.readJson\<close> or \<open>response.json()\<close> is a JavaScript value built by
  \<open>JSON.parse\<close>. An object is the list of its own properties; \<open>map_of\<close> reads one, with
  \<open>None\<close> for \<open>undefined\<close>. A number is the real that a finite double stands for: a
  literal beyond the range of doubles is outside the model.
\<close>

datatype json =
    JNull
  | JBool bool
  | JNum real
  | JStr string
  | JArr "json list"
  | JObj "(string \<times> json) list"

text \<open>
  \<open>if (cached)\<close> and \<open>if (stale)\<close> test truthiness. \<open>readCache\<close> and \<open>readStaleCache\<close>
  return \<open>null\<close> for a missing file, which is \<open>JNull\<close> here.
\<close>

fun truthy :: "json \<Rightarrow> bool" where
  "truthy JNull = False"
| "truthy (JBool b) = b"
| "truthy (JNum n) = (n \<noteq> 0)"
| "truthy (JStr s) = (s \<noteq> [])"
| "truthy (JArr xs) = True"
| "truthy (JObj ps) = True"

text \<open>
  The zod combinators the schemas use. A parser returns \<open>None\<close> where \<open>safeParse\<close> reports
  \<open>success: false\<close>; the text of the first issue is not modelled.
\<close>

fun z_string :: "json \<Rightarrow> string option" where
  "z_string (JStr s) = Some s"
| "z_string _ = None"

fun z_number :: "json \<Rightarrow> real option" where
  "z_number (JNum n) = Some n"
| "z_number _ = None"

text \<open>A required property must be present; an \<open>.optional()\<close> one may be \<open>undefined\<close>.\<close>

definition z_required :: "(json \<Rightarrow> 'a option) \<Rightarrow> json option \<Rightarrow> 'a option" where
  "z_required p v = (case v of None \<Rightarrow> None | Some j \<Rightarrow> p j)"

definition z_optional :: "(json \<Rightarrow> 'a option) \<Rightarrow> json option \<Rightarrow> 'a option option" where
  "z_optional p v = (case v of None \<Rightarrow> Some None | Some j \<Rightarrow> map_option Some (p j))"

fun z_elements :: "(json \<Rightarrow> 'a option) \<Rightarrow> json list \<Rightarrow> 'a list option" where
  "z_elements p [] = Some []"
| "z_elements p (j # js) =
     (case p j of None \<Rightarrow> None
      | Some x \<Rightarrow> (case z_elements p js of None \<Rightarrow> None | Some xs \<Rightarrow> Some (x # xs)))"

fun z_array :: "(json \<Rightarrow> 'a option) \<Rightarrow> json \<Rightarrow> 'a list option" where
  "z_array p (JArr js) = z_elements p js"
| "z_array p _ = None"

fun z_entries :: "(json \<Rightarrow> 'a option) \<Rightarrow> (string \<times> json) list \<Rightarrow> (string \<times> 'a) list option" where
  "z_entries p [] = Some []"
| "z_entries p ((k, j) # ps) =
     (case p j of None \<Rightarrow> None
      | Some x \<Rightarrow> (case z_entries p ps of None \<Rightarrow> None | Some xs \<Rightarrow> Some ((k, x) # xs)))"

fun z_record :: "(json \<Rightarrow> 'a option) \<Rightarrow> json \<Rightarrow> (string \<times> 'a) list option" where
  "z_record p (JObj ps) = z_entries p ps"
| "z_record p _ = None"

text \<open>
  \<open>z.object\<close> accepts an object, parses the properties of its shape and drops every
  other key.
\<close>

definition CitySchema :: "json \<Rightarrow> City option" where
  "CitySchema j =
     (case j of
        JObj ps \<Rightarrow>
          do {
            n \<leftarrow> z_required (z_record z_string) (map_of ps ''name'');
            la \<leftarrow> z_optional z_number (map_of ps ''latitude'');
            lo \<leftarrow> z_optional z_number (map_of ps ''longitude'');
            Some \<lparr>city_name = n, city_latitude = la, city_longitude = lo\<rparr>
          }
      | _ \<Rightarrow> None)"

definition RegionSchema :: "json \<Rightarrow> Region option" where
  "RegionSchema j =
     (case j of
        JObj ps \<Rightarrow>
          do {
            c \<leftarrow> z_required z_string (map_of ps ''code'');
            n \<leftarrow> z_required (z_record z_string) (map_of ps ''name'');
            cs \<leftarrow> z_required (z_array CitySchema) (map_of ps ''cities'');
            Some \<lparr>region_code = c, region_name = n, region_cities = cs\<rparr>
          }
      | _ \<Rightarrow> None)"

definition CountryDataSchema :: "json \<Rightarrow> CountryData option" where
  "CountryDataSchema j =
     (case j of
        JObj ps \<Rightarrow>
          do {
            c \<leftarrow> z_required z_string (map_of ps ''code'');
            i \<leftarrow> z_optional z_string (map_of ps ''iso3'');
            n \<leftarrow> z_required (z_record z_string) (map_of ps ''name'');
            ph \<leftarrow> z_required z_string (map_of ps ''phone'');
            cu \<leftarrow> z_required z_string (map_of ps ''currency'');
            tz \<leftarrow> z_required z_string (map_of ps ''timezone'');
            fl \<leftarrow> z_required z_string (map_of ps ''flag'');
            rs \<leftarrow> z_required (z_array RegionSchema) (map_of ps ''regions'');
            Some \<lparr>code = c, iso3 = i, name = n, phone = ph, currency = cu, timezone = tz,
                  flag = fl, regions = rs\<rparr>
          }
      | _ \<Rightarrow> None)"

record IndexName =
  en :: string
  ar :: "string option"

record IndexEntry =
  entry_name :: IndexName
  entry_flag :: string
  entry_languages :: "string list"

record RegistryIndex =
  version :: string
  countries :: "(string \<times> IndexEntry) list"

definition IndexNameSchema :: "json \<Rightarrow> IndexName option" where
  "IndexNameSchema j =
     (case j of
        JObj ps \<Rightarrow>
          do {
            e \<leftarrow> z_required z_string (map_of ps ''en'');
            a \<leftarrow> z_optional z_string (map_of ps ''ar'');
            Some \<lparr>en = e, ar = a\<rparr>
          }
      | _ \<Rightarrow> None)"

definition IndexEntrySchema :: "json \<Rightarrow> IndexEntry option" where
  "IndexEntrySchema j =
     (case j of
        JObj ps \<Rightarrow>
          do {
            n \<leftarrow> z_required IndexNameSchema (map_of ps ''name'');
            fl \<leftarrow> z_required z_string (map_of ps ''flag'');
            ls \<leftarrow> z_required (z_array z_string) (map_of ps ''languages'');
            Some \<lparr>entry_name = n, entry_flag = fl, entry_languages = ls\<rparr>
          }
      | _ \<Rightarrow> None)"

definition RegistryIndexSchema :: "json \<Rightarrow> RegistryIndex option" where
  "RegistryIndexSchema j =
     (case j of
        JObj ps \<Rightarrow>
          do {
            v \<leftarrow> z_required z_string (map_of ps ''version'');
            cs \<leftarrow> z_required (z_record IndexEntrySchema) (map_of ps ''countries'');
            Some \<lparr>version = v, countries = cs\<rparr>
          }
      | _ \<Rightarrow> None)"

subsection \<open>Writing parsed data back as JSON\<close>

text \<open>
  \<open>fs.writeJson(path, result.data)\<close> followed by \<open>fs.readJson(path)\<close> yields the value below:
  \<open>JSON.stringify\<close> leaves out a property whose value is \<open>undefined\<close>.
\<close>

definition json_names :: "names \<Rightarrow> json" where
  "json_names n = JObj (map (\<lambda>(k, v). (k, JStr v)) n)"

definition json_opt :: "string \<Rightarrow> ('a \<Rightarrow> json) \<Rightarrow> 'a option \<Rightarrow> (string \<times> json) list" where
  "json_opt k f v = (case v of None \<Rightarrow> [] | Some x \<Rightarrow> [(k, f x)])"

definition json_City :: "City \<Rightarrow> json" where
  "json_City c =
     JObj ([(''name'', json_names (city_name c))]
           @ json_opt ''latitude'' JNum (city_latitude c)
           @ json_opt ''longitude'' JNum (city_longitude c))"

definition json_Region :: "Region \<Rightarrow> json" where
  "json_Region r =
     JObj [(''code'', JStr (region_code r)),
           (''name'', json_names (region_name r)),
           (''cities'', JArr (map json_City (region_cities r)))]"

definition json_CountryData :: "CountryData \<Rightarrow> json" where
  "json_CountryData d =
     JObj ([(''code'', JStr (code d))]
           @ json_opt ''iso3'' JStr (iso3 d)
           @ [(''name'', json_names (name d)),
              (''phone'', JStr (phone d)),
              (''currency'', JStr (currency d)),
              (''timezone'', JStr (timezone d)),
              (''flag'', JStr (flag d)),
              (''regions'', JArr (map json_Region (regions d)))])"

definition json_IndexEntry :: "IndexEntry \<Rightarrow> json" where
  "json_IndexEntry e =
     JObj [(''name'', JObj ([(''en'', JStr (en (entry_name e)))]
                            @ json_opt ''ar'' JStr (ar (entry_name e)))),
           (''flag'', JStr (entry_flag e)),
           (''languages'', JArr (map JStr (entry_languages e)))]"

definition json_RegistryIndex :: "RegistryIndex \<Rightarrow> json" where
  "json_RegistryIndex r =
     JObj [(''version'', JStr (version r)),
           (''countries'', JObj (map (\<lambda>(k, e). (k, json_IndexEntry e)) (countries r)))]"

section \<open>RegistryService: cache, fetch and validation (registry.ts)\<close>

text \<open>
  What a call finds outside the program: the value of \<open>REGISTRY_BASE\<close>, what \<open>fetch\<close>
  answers for a URL (\<open>Inl\<close> when the request throws: unreachable host, time-out after
  30 seconds, non-success status, unreadable body), what \<open>fs.readJson\<close> finds at a local
  path, the value of \<open>Date.now()\<close> when the cache is read and the modification time the
  file system gives a file written during the call, both in milliseconds. \<open>pathJoin\<close> is
  \<open>path.join\<close> of Node, which joins its arguments and normalises the result (a leading
  \<open>./\<close> is dropped, for one): it is taken as given, and only calls against a local
  registry use it.
\<close>

datatype error = Error string

record Env =
  REGISTRY_BASE :: string
  fetch :: "string \<Rightarrow> error + json"
  readJson :: "string \<Rightarrow> error + json"
  pathJoin :: "string list \<Rightarrow> string"
  now :: int
  writeTime :: int

text \<open>
  What a call changes: the files \<open>CACHE_DIR/<key>.json\<close>, the warnings printed with
  \<open>p.log.warn\<close> and the URLs requested over the network, both oldest first. A cache file
  holds a JSON value and reading or writing one does not fail: errors of the file system
  in the cache directory are not modelled. The text of a warning is reduced to its kind.
\<close>

record CacheFile =
  content :: json
  mtimeMs :: int

datatype warning =
    NetworkUnavailable
  | RegistryIndexInvalid
  | CountryDataInvalid string

record World =
  cacheDir :: "string \<rightharpoonup> CacheFile"
  warnings :: "warning list"
  requests :: "string list"

definition warn :: "warning \<Rightarrow> World \<Rightarrow> World" where
  "warn m w = w\<lparr>warnings := warnings w @ [m]\<rparr>"

fun startsWith :: "string \<Rightarrow> string \<Rightarrow> bool" where
  "startsWith s [] = True"
| "startsWith [] (c # cs) = False"
| "startsWith (x # xs) (c # cs) = (x = c \<and> startsWith xs cs)"

definition isRemoteRegistry :: "string \<Rightarrow> bool" where
  "isRemoteRegistry url = (startsWith url ''http://'' \<or> startsWith url ''https://'')"

definition readCache :: "Env \<Rightarrow> World \<Rightarrow> string \<Rightarrow> int \<Rightarrow> json" where
  "readCache env w cacheKey maxAgeMs =
     (case cacheDir w cacheKey of
        Some file \<Rightarrow> if now env - mtimeMs file < maxAgeMs then content file else JNull
      | None \<Rightarrow> JNull)"

definition writeCache :: "Env \<Rightarrow> World \<Rightarrow> string \<Rightarrow> json \<Rightarrow> World" where
  "writeCache env w cacheKey data =
     w\<lparr>cacheDir := (cacheDir w)(cacheKey \<mapsto> \<lparr>content = data, mtimeMs = writeTime env\<rparr>)\<rparr>"

definition readStaleCache :: "World \<Rightarrow> string \<Rightarrow> json" where
  "readStaleCache w cacheKey =
     (case cacheDir w cacheKey of Some file \<Rightarrow> content file | None \<Rightarrow> JNull)"

text \<open>\<open>path.isAbsolute\<close> on POSIX paths.\<close>

definition isAbsolute :: "string \<Rightarrow> bool" where
  "isAbsolute p = startsWith p ''/''"

definition fetchJson :: "Env \<Rightarrow> World \<Rightarrow> string \<Rightarrow> (error + json) \<times> World" where
  "fetchJson env w urlOrPath =
     (if isAbsolute urlOrPath \<or> startsWith urlOrPath ''.''
      then (readJson env urlOrPath, w)
      else (fetch env urlOrPath, w\<lparr>requests := requests w @ [urlOrPath]\<rparr>))"

text \<open>
  A call returns \<open>Inl error\<close> when the promise rejects, \<open>Inr None\<close> when it resolves to
  \<open>null\<close> and \<open>Inr (Some data)\<close> otherwise, together with the world it leaves.
\<close>

definition fetchRegistry :: "Env \<Rightarrow> World \<Rightarrow> (error + RegistryIndex option) \<times> World" where
  "fetchRegistry env w =
     (let url = (if isRemoteRegistry (REGISTRY_BASE env)
                 then REGISTRY_BASE env @ ''/index.json''
                 else pathJoin env [REGISTRY_BASE env, ''index.json'']);
          (data, w1) =
            (if isRemoteRegistry (REGISTRY_BASE env) then
               let cached = readCache env w ''registry-index'' (60 * 60 * 1000) in
               if truthy cached then (Inr cached, w)
               else
                 (case fetchJson env w url of
                    (body, w0) \<Rightarrow>
                      (case body of
                         Inr fetched \<Rightarrow> (Inr fetched, w0)
                       | Inl error \<Rightarrow>
                           let stale = readStaleCache w0 ''registry-index'' in
                           if truthy stale then (Inr stale, warn NetworkUnavailable w0)
                           else (Inl error, w0)))
             else fetchJson env w url)
      in case data of
           Inl error \<Rightarrow> (Inl error, w1)
         | Inr payload \<Rightarrow>
             (case RegistryIndexSchema payload of
                None \<Rightarrow> (Inr None, warn RegistryIndexInvalid w1)
              | Some result \<Rightarrow>
                  (Inr (Some result),
                   if isRemoteRegistry (REGISTRY_BASE env)
                   then writeCache env w1 ''registry-index'' (json_RegistryIndex result)
                   else w1)))"

definition fetchCountry ::
  "Env \<Rightarrow> World \<Rightarrow> string \<Rightarrow> GeoDataConfig \<Rightarrow> (error + CountryData option) \<times> World" where
  "fetchCountry env w cc config =
     (let url = (if isRemoteRegistry (REGISTRY_BASE env)
                 then REGISTRY_BASE env @ ''/countries/'' @ cc @ ''.json''
                 else pathJoin env [REGISTRY_BASE env, ''countries'', cc @ ''.json'']);
          (raw, w1) =
            (if isRemoteRegistry (REGISTRY_BASE env) then
               let cached = readCache env w (''country-'' @ cc) (24 * 60 * 60 * 1000) in
               if truthy cached then (Inr cached, w)
               else
                 (case fetchJson env w url of
                    (body, w0) \<Rightarrow>
                      (case body of
                         Inr fetched \<Rightarrow> (Inr fetched, w0)
                       | Inl error \<Rightarrow>
                           let stale = readStaleCache w0 (''country-'' @ cc) in
                           if truthy stale then (Inr stale, warn NetworkUnavailable w0)
                           else (Inl error, w0)))
             else fetchJson env w url)
      in case raw of
           Inl error \<Rightarrow> (Inl error, w1)
         | Inr payload \<Rightarrow>
             (case CountryDataSchema payload of
                None \<Rightarrow> (Inr None, warn (CountryDataInvalid cc) w1)
              | Some result \<Rightarrow>
                  (Inr (Some (filterCountryData result config)),
                   if isRemoteRegistry (REGISTRY_BASE env)
                   then writeCache env w1 (''country-'' @ cc) (json_CountryData result)
                   else w1)))"

section \<open>filterName with inherited properties\<close>

text \<open>
  A name map is an ordinary object, so \<open>name[lang]\<close> finds an own property or, failing
  that, a member of \<open>Object.prototype\<close>: a function, or the prototype itself for
  \<open>__proto__\<close>. All of these are truthy. The value of a property is then a string or such
  a member, named by its key.
\<close>

datatype jsvalue = JString string | Inherited string

definition prototypeMembers :: "string list" where
  "prototypeMembers =
     [''constructor'', ''__defineGetter__'', ''__defineSetter__'', ''hasOwnProperty'',
      ''__lookupGetter__'', ''__lookupSetter__'', ''isPrototypeOf'', ''propertyIsEnumerable'',
      ''toString'', ''valueOf'', ''__proto__'', ''toLocaleString'']"

definition get_prop :: "(string \<times> jsvalue) list \<Rightarrow> string \<Rightarrow> jsvalue option" where
  "get_prop ob k =
     (case map_of ob k of
        Some v \<Rightarrow> Some v
      | None \<Rightarrow> if k \<in> set prototypeMembers then Some (Inherited k) else None)"

definition truthy_value :: "jsvalue option \<Rightarrow> bool" where
  "truthy_value v =
     (case v of None \<Rightarrow> False | Some (JString s) \<Rightarrow> s \<noteq> [] | Some (Inherited k) \<Rightarrow> True)"

text \<open>
  \<open>filtered[lang] = v\<close>: an own property is defined, except for \<open>__proto__\<close>, where the
  setter of \<open>Object.prototype\<close> runs and defines none; the value it is given here is a
  string, which it ignores, or the prototype that \<open>filtered\<close> already has.
\<close>

definition set_own :: "string \<Rightarrow> jsvalue \<Rightarrow> (string \<times> jsvalue) list \<Rightarrow> (string \<times> jsvalue) list" where
  "set_own k v ob = (if k = ''__proto__'' then ob else assign k v ob)"

definition filterName_proto ::
  "string list \<Rightarrow> (string \<times> jsvalue) list \<Rightarrow> (string \<times> jsvalue) list" where
  "filterName_proto langs nm =
     (let filtered =
            fold (\<lambda>lang filtered.
                    if truthy_value (get_prop nm lang)
                    then set_own lang (the (get_prop nm lang)) filtered
                    else filtered)
                 langs [];
          filtered =
            (if \<not> truthy_value (get_prop filtered ''en'') \<and> truthy_value (get_prop nm ''en'')
             then set_own ''en'' (the (get_prop nm ''en'')) filtered
             else filtered)
      in filtered)"

text \<open>A name map of strings, as the schema delivers it.\<close>

definition own_strings :: "names \<Rightarrow> (string \<times> jsvalue) list" where
  "own_strings nm = map (\<lambda>(k, s). (k, JString s)) nm"

section \<open>Installed countries (helpers.ts) and the generated module\<close>

fun replace :: "string \<Rightarrow> string \<Rightarrow> string \<Rightarrow> string" where
  "replace [] pat rep = (if pat = [] then rep else [])"
| "replace (c # cs) pat rep =
     (if startsWith (c # cs) pat then rep @ drop (length pat) (c # cs)
      else c # replace cs pat rep)"

definition endsWith :: "string \<Rightarrow> string \<Rightarrow> bool" where
  "endsWith s suffix = startsWith (rev s) (rev suffix)"

text \<open>
  \<open>readdir\<close> is \<open>fs.readdir\<close>: the names in a directory, in the order the file system
  gives them, or a rejection, which \<open>.catch\<close> turns into the empty list. \<open>replace\<close> is
  \<open>String.prototype.replace\<close> with a string pattern: the first occurrence only.
\<close>

definition getInstalledCountries ::
  "(string \<Rightarrow> error + string list) \<Rightarrow> string \<Rightarrow> string list" where
  "getInstalledCountries readdir dir =
     (let files = (case readdir dir of Inl e \<Rightarrow> [] | Inr fs \<Rightarrow> fs)
      in map (\<lambda>f. replace f ''.json'' '''')
           (filter (\<lambda>f. endsWith f ''.json'' \<and> f \<noteq> ''index.json'') files))"

text \<open>
  \<open>String.prototype.toUpperCase\<close> on ASCII letters, which is what a country code is made of.
\<close>

definition toUpperCase :: "string \<Rightarrow> string" where
  "toUpperCase s =
     map (\<lambda>c. case map_of (zip ''abcdefghijklmnopqrstuvwxyz'' ''ABCDEFGHIJKLMNOPQRSTUVWXYZ'') c of
                 Some u \<Rightarrow> u
               | None \<Rightarrow> c) s"

text \<open>
  Modelled from the spec: \<open>generateIndex\<close> (codegen.ts) is not among the sources, only its
  test and its callers are. The specification says that the generator "lists the dataset
  files currently materialized in \<open>config.outputDir\<close> (excluding the index/summary file
  itself), sorts their codes for deterministic output, and emits a single accessor module",
  and that for a directory with \<open>us.json\<close> and \<open>sa.json\<close> the module's
  \<open>getCountryCodes()\<close> "returns \<open>["SA","US"]\<close> in sorted order". So the codes of the module
  are the codes of the listed files in upper case, sorted. The listing is
  \<open>getInstalledCountries\<close>, which codegen.test.ts shows the generator to call; the sort is
  JavaScript's default sort of strings, which for ASCII names is the lexicographic order of
  the characters.
\<close>

definition generateIndex_codes ::
  "(string \<Rightarrow> error + string list) \<Rightarrow> GeoDataConfig \<Rightarrow> string list" where
  "generateIndex_codes readdir config =
     sort (map toUpperCase (getInstalledCountries readdir (outputDir config)))"

text \<open>
  Modelled from the spec: the generator writes one file, \<open>index.ts\<close> or \<open>index.js\<close> by
  \<open>config.typescript\<close>, into \<open>config.outputDir\<close>. In codegen.test.ts only the listing and
  \<open>writeFile\<close> are available to the generator, so the text of the module depends on the
  output mode and on the codes alone; the template is in the missing file and is the
  parameter \<open>render\<close>.
\<close>

record GeneratedFile =
  fileDir :: string
  fileName :: string
  fileContent :: string

definition generateIndex ::
  "(bool \<Rightarrow> string list \<Rightarrow> string) \<Rightarrow> (string \<Rightarrow> error + string list) \<Rightarrow> GeoDataConfig
     \<Rightarrow> GeneratedFile" where
  "generateIndex render readdir config =
     \<lparr>fileDir = outputDir config,
      fileName = (if typescript config then ''index.ts'' else ''index.js''),
      fileContent = render (typescript config) (generateIndex_codes readdir config)\<rparr>"

text \<open>
  Modelled from the spec: \<open>getCountryCodes()\<close> of the emitted module returns the codes of
  the module.
\<close>

definition getCountryCodes ::
  "(string \<Rightarrow> error + string list) \<Rightarrow> GeoDataConfig \<Rightarrow> string list" where
  "getCountryCodes readdir config = generateIndex_codes readdir config"

section \<open>filterCountryData on a heap of objects\<close>

text \<open>
  To state that \<open>filterCountryData\<close> leaves its argument alone, the same function is
  modelled a second time with the objects it works on held in a heap: a name map, a city, an
  array, a region and a country are objects, and a variable or a property holds the address
  of one. Strings, numbers and the config are values. The heap is the list of the objects
  allocated so far and an address is an index into it.
\<close>

datatype obj =
    Names names
  | CityObj nat "real option" "real option"
  | Array "nat list"
  | RegionObj string nat nat
  | CountryObj string "string option" nat string string string string nat

type_synonym heap = "obj list"

text \<open>An object literal or a new array: the next free address.\<close>

definition alloc :: "obj \<Rightarrow> heap \<Rightarrow> nat \<times> heap" where
  "alloc ob h = (length h, h @ [ob])"

text \<open>Reading an object of the expected kind; \<open>None\<close> is a dangling or ill-typed address.\<close>

definition names_at :: "heap \<Rightarrow> nat \<Rightarrow> names option" where
  "names_at h r = (if r < length h then (case h ! r of Names n \<Rightarrow> Some n | _ \<Rightarrow> None) else None)"

definition array_at :: "heap \<Rightarrow> nat \<Rightarrow> nat list option" where
  "array_at h r = (if r < length h then (case h ! r of Array xs \<Rightarrow> Some xs | _ \<Rightarrow> None) else None)"

definition city_at :: "heap \<Rightarrow> nat \<Rightarrow> (nat \<times> real option \<times> real option) option" where
  "city_at h r =
     (if r < length h then (case h ! r of CityObj n la lo \<Rightarrow> Some (n, la, lo) | _ \<Rightarrow> None) else None)"

definition region_at :: "heap \<Rightarrow> nat \<Rightarrow> (string \<times> nat \<times> nat) option" where
  "region_at h r =
     (if r < length h then (case h ! r of RegionObj c n cs \<Rightarrow> Some (c, n, cs) | _ \<Rightarrow> None) else None)"

definition country_at ::
  "heap \<Rightarrow> nat \<Rightarrow> (string \<times> string option \<times> nat \<times> string \<times> string \<times> string \<times> string \<times> nat) option" where
  "country_at h r =
     (if r < length h
      then (case h ! r of CountryObj c i n ph cu tz fl rs \<Rightarrow> Some (c, i, n, ph, cu, tz, fl, rs)
            | _ \<Rightarrow> None)
      else None)"

text \<open>
  The assignments of the source: \<open>filtered[lang] = v\<close>, \<open>filteredCity.latitude = v\<close> and
  \<open>filteredCity.longitude = v\<close>.
\<close>

definition set_prop :: "nat \<Rightarrow> string \<Rightarrow> string \<Rightarrow> heap \<Rightarrow> heap option" where
  "set_prop r k v h =
     (case names_at h r of Some n \<Rightarrow> Some (h[r := Names (assign k v n)]) | None \<Rightarrow> None)"

definition set_latitude :: "nat \<Rightarrow> real option \<Rightarrow> heap \<Rightarrow> heap option" where
  "set_latitude r v h =
     (case city_at h r of Some (n, la, lo) \<Rightarrow> Some (h[r := CityObj n v lo]) | None \<Rightarrow> None)"

definition set_longitude :: "nat \<Rightarrow> real option \<Rightarrow> heap \<Rightarrow> heap option" where
  "set_longitude r v h =
     (case city_at h r of Some (n, la, lo) \<Rightarrow> Some (h[r := CityObj n la v]) | None \<Rightarrow> None)"

text \<open>A \<open>for ... of\<close> loop whose body changes the heap.\<close>

fun for_of :: "('a \<Rightarrow> heap \<Rightarrow> heap option) \<Rightarrow> 'a list \<Rightarrow> heap \<Rightarrow> heap option" where
  "for_of body [] h = Some h"
| "for_of body (x # xs) h = (case body x h of None \<Rightarrow> None | Some h' \<Rightarrow> for_of body xs h')"

definition filterName_heap :: "string list \<Rightarrow> nat \<Rightarrow> heap \<Rightarrow> (nat \<times> heap) option" where
  "filterName_heap langs nm h =
     (let (filtered, h) = alloc (Names []) h in
      do {
        h \<leftarrow> for_of (\<lambda>lang h.
               do {
                 n \<leftarrow> names_at h nm;
                 if truthy_prop (map_of n lang)
                 then set_prop filtered lang (the (map_of n lang)) h
                 else Some h
               }) langs h;
        f \<leftarrow> names_at h filtered;
        n \<leftarrow> names_at h nm;
        h \<leftarrow> (if \<not> truthy_prop (map_of f ''en'') \<and> truthy_prop (map_of n ''en'')
              then set_prop filtered ''en'' (the (map_of n ''en'')) h
              else Some h);
        Some (filtered, h)
      })"

text \<open>
  \<open>Array.prototype.map\<close>: the length is read once, element \<open>k\<close> of the source array is
  read at step \<open>k\<close>, the callback runs on it, and the results make a new array.
\<close>

fun map_from ::
  "(nat \<Rightarrow> heap \<Rightarrow> (nat \<times> heap) option) \<Rightarrow> nat \<Rightarrow> nat \<Rightarrow> nat \<Rightarrow> heap \<Rightarrow> (nat list \<times> heap) option" where
  "map_from f src k 0 h = Some ([], h)"
| "map_from f src k (Suc n) h =
     (case array_at h src of
        None \<Rightarrow> None
      | Some xs \<Rightarrow>
          if k < length xs then
            (case f (xs ! k) h of
               None \<Rightarrow> None
             | Some (y, h1) \<Rightarrow>
                 (case map_from f src (Suc k) n h1 of
                    None \<Rightarrow> None
                  | Some (ys, h2) \<Rightarrow> Some (y # ys, h2)))
          else None)"

definition array_map :: "(nat \<Rightarrow> heap \<Rightarrow> (nat \<times> heap) option) \<Rightarrow> nat \<Rightarrow> heap \<Rightarrow> (nat \<times> heap) option" where
  "array_map f src h =
     do {
       xs \<leftarrow> array_at h src;
       (ys, h) \<leftarrow> map_from f src 0 (length xs) h;
       Some (alloc (Array ys) h)
     }"

text \<open>
  The arrow functions given to \<open>map\<close> and the function itself. A spread copies the
  strings of the source object; \<open>name\<close> and \<open>cities\<close> or \<open>regions\<close> are replaced by new
  objects. An object is allocated when its properties are known: the order of allocation
  is not observable.
\<close>

definition filterCity_heap :: "GeoDataConfig \<Rightarrow> nat \<Rightarrow> heap \<Rightarrow> (nat \<times> heap) option" where
  "filterCity_heap config city h =
     do {
       (nm, la, lo) \<leftarrow> city_at h city;
       (n, h) \<leftarrow> filterName_heap (languages config) nm h;
       let (filteredCity, h) = alloc (CityObj n None None) h;
       (nm, la, lo) \<leftarrow> city_at h city;
       h \<leftarrow> (if includeCoordinates config \<and> la \<noteq> None \<and> lo \<noteq> None
             then do {
                    h \<leftarrow> set_latitude filteredCity la h;
                    (nm, la, lo) \<leftarrow> city_at h city;
                    set_longitude filteredCity lo h
                  }
             else Some h);
       Some (filteredCity, h)
     }"

definition filterRegion_heap :: "GeoDataConfig \<Rightarrow> nat \<Rightarrow> heap \<Rightarrow> (nat \<times> heap) option" where
  "filterRegion_heap config region h =
     do {
       (c, nm, cs) \<leftarrow> region_at h region;
       (n, h) \<leftarrow> filterName_heap (languages config) nm h;
       (c', nm', cs) \<leftarrow> region_at h region;
       (cities, h) \<leftarrow> array_map (filterCity_heap config) cs h;
       Some (alloc (RegionObj c n cities) h)
     }"

definition filterCountryData_heap :: "nat \<Rightarrow> GeoDataConfig \<Rightarrow> heap \<Rightarrow> (nat \<times> heap) option" where
  "filterCountryData_heap data config h =
     do {
       (c, i, nm, ph, cu, tz, fl, rs) \<leftarrow> country_at h data;
       (n, h) \<leftarrow> filterName_heap (languages config) nm h;
       (c', i', nm', ph', cu', tz', fl', rs) \<leftarrow> country_at h data;
       (regions, h) \<leftarrow> array_map (filterRegion_heap config) rs h;
       Some (alloc (CountryObj c i n ph cu tz fl regions) h)
     }"

text \<open>
  The value that an address stands for. \<open>load_CountryData lo h r\<close> reads the dataset at
  \<open>r\<close> through its regions, cities and name maps, and succeeds only if every object it
  visits lies at an address \<open>\<ge> lo\<close>: with \<open>lo = 0\<close> it is plain reading, with \<open>lo\<close>
  the size of an earlier heap it says that the value is made of objects allocated since.
\<close>

fun load_all :: "(nat \<Rightarrow> 'a option) \<Rightarrow> nat list \<Rightarrow> 'a list option" where
  "load_all ld [] = Some []"
| "load_all ld (r # rs) =
     (case ld r of None \<Rightarrow> None
      | Some x \<Rightarrow> (case load_all ld rs of None \<Rightarrow> None | Some xs \<Rightarrow> Some (x # xs)))"

definition load_names :: "nat \<Rightarrow> heap \<Rightarrow> nat \<Rightarrow> names option" where
  "load_names lo h r = (if lo \<le> r then names_at h r else None)"

definition load_City :: "nat \<Rightarrow> heap \<Rightarrow> nat \<Rightarrow> City option" where
  "load_City lo h r =
     (if lo \<le> r
      then do {
             (nm, la, lg) \<leftarrow> city_at h r;
             n \<leftarrow> load_names lo h nm;
             Some \<lparr>city_name = n, city_latitude = la, city_longitude = lg\<rparr>
           }
      else None)"

definition load_array :: "(nat \<Rightarrow> heap \<Rightarrow> nat \<Rightarrow> 'a option) \<Rightarrow> nat \<Rightarrow> heap \<Rightarrow> nat \<Rightarrow> 'a list option" where
  "load_array ld lo h r =
     (if lo \<le> r then do { xs \<leftarrow> array_at h r; load_all (ld lo h) xs } else None)"

definition load_Region :: "nat \<Rightarrow> heap \<Rightarrow> nat \<Rightarrow> Region option" where
  "load_Region lo h r =
     (if lo \<le> r
      then do {
             (c, nm, cs) \<leftarrow> region_at h r;
             n \<leftarrow> load_names lo h nm;
             cities \<leftarrow> load_array load_City lo h cs;
             Some \<lparr>region_code = c, region_name = n, region_cities = cities\<rparr>
           }
      else None)"

definition load_CountryData :: "nat \<Rightarrow> heap \<Rightarrow> nat \<Rightarrow> CountryData option" where
  "load_CountryData lo h r =
     (if lo \<le> r
      then do {
             (c, i, nm, ph, cu, tz, fl, rs) \<leftarrow> country_at h r;
             n \<leftarrow> load_names lo h nm;
             regions \<leftarrow> load_array load_Region lo h rs;
             Some \<lparr>code = c, iso3 = i, name = n, phone = ph, currency = cu, timezone = tz,
                   flag = fl, regions = regions\<rparr>
           }
      else None)"

section \<open>Auxiliary definitions for the proofs\<close>

text \<open>The body of the loop in \<open>filterName\<close>, and the two arrow functions given to \<open>map\<close>.\<close>

definition keep :: "names \<Rightarrow> string \<Rightarrow> names \<Rightarrow> names" where
  "keep nm = (\<lambda>lang filtered.
                if truthy_prop (map_of nm lang)
                then assign lang (the (map_of nm lang)) filtered
                else filtered)"

definition filterCity :: "GeoDataConfig \<Rightarrow> City \<Rightarrow> City" where
  "filterCity config city =
     (if includeCoordinates config \<and> city_latitude city \<noteq> None \<and> city_longitude city \<noteq> None
      then \<lparr>city_name = filterName (languages config) (city_name city),
            city_latitude = city_latitude city, city_longitude = city_longitude city\<rparr>
      else \<lparr>city_name = filterName (languages config) (city_name city),
            city_latitude = None, city_longitude = None\<rparr>)"

definition filterRegion :: "GeoDataConfig \<Rightarrow> Region \<Rightarrow> Region" where
  "filterRegion config region =
     region\<lparr>region_name := filterName (languages config) (region_name region),
            region_cities := map (filterCity config) (region_cities region)\<rparr>"

text \<open>
  The invariant of the cache: the file of the index parses with the index schema and the
  file of every country parses with the country schema.
\<close>

definition cacheValidated :: "World \<Rightarrow> bool" where
  "cacheValidated w \<longleftrightarrow>
     (\<forall>file. cacheDir w ''registry-index'' = Some file \<longrightarrow>
        RegistryIndexSchema (content file) \<noteq> None) \<and>
     (\<forall>cc file. cacheDir w (''country-'' @ cc) = Some file \<longrightarrow>
        CountryDataSchema (content file) \<noteq> None)"

text \<open>
  \<open>implements ld g f\<close>: run on an address that reads as \<open>v\<close>, the heap function \<open>f\<close>
  only appends objects to the heap and returns an address that reads as \<open>g v\<close> through
  appended objects alone. \<open>stable ld\<close>: reading is not affected by appending objects, nor
  by lowering the bound.
\<close>

definition implements ::
  "(nat \<Rightarrow> heap \<Rightarrow> nat \<Rightarrow> 'a option) \<Rightarrow> ('a \<Rightarrow> 'a) \<Rightarrow> (nat \<Rightarrow> heap \<Rightarrow> (nat \<times> heap) option) \<Rightarrow> bool" where
  "implements ld g f \<longleftrightarrow>
     (\<forall>h r v. ld 0 h r = Some v \<longrightarrow>
        (\<exists>r' e. f r h = Some (r', h @ e) \<and> ld (length h) (h @ e) r' = Some (g v)))"

definition stable :: "(nat \<Rightarrow> heap \<Rightarrow> nat \<Rightarrow> 'a option) \<Rightarrow> bool" where
  "stable ld \<longleftrightarrow>
     (\<forall>lo h r v e. ld lo h r = Some v \<longrightarrow> ld lo (h @ e) r = Some v) \<and>
     (\<forall>lo lo' h r v. ld lo h r = Some v \<and> lo' \<le> lo \<longrightarrow> ld lo' h r = Some v)"

section \<open>Concrete inputs\<close>

text \<open>
  The country of the zero-coordinate tests in registry.test.ts, with a third city that
  carries a latitude and no longitude.
\<close>

definition zeroCoordsCountry :: CountryData where
  "zeroCoordsCountry =
     \<lparr>code = ''test'', iso3 = None, name = [(''en'', ''Test Country'')], phone = ''+0'',
      currency = ''TST'', timezone = ''UTC'', flag = ''flag'',
      regions =
        [\<lparr>region_code = ''01'', region_name = [(''en'', ''Test Region'')],
          region_cities =
            [\<lparr>city_name = [(''en'', ''Zero City'')],
              city_latitude = Some 0, city_longitude = Some 0\<rparr>,
             \<lparr>city_name = [(''en'', ''Equator City'')],
              city_latitude = Some 0, city_longitude = Some 46.6753\<rparr>,
             \<lparr>city_name = [(''en'', ''Latitude Only'')],
              city_latitude = Some 0, city_longitude = None\<rparr>]\<rparr>]\<rparr>"

text \<open>The sample country of registry.test.ts, in ASCII, and a country whose English name is empty.\<close>

definition sampleCountry :: CountryData where
  "sampleCountry =
     \<lparr>code = ''sa'', iso3 = Some ''SAU'',
      name = [(''en'', ''Saudi Arabia''), (''ar'', ''As-Saudiyya''), (''fr'', ''Arabie saoudite'')],
      phone = ''+966'', currency = ''SAR'', timezone = ''Asia/Riyadh'', flag = ''flag'',
      regions =
        [\<lparr>region_code = ''01'',
          region_name = [(''en'', ''Riyadh Region''), (''ar'', ''Mintaqat ar-Riyad''),
                         (''fr'', ''Region de Riyad'')],
          region_cities =
            [\<lparr>city_name = [(''en'', ''Riyadh''), (''ar'', ''Ar-Riyad''), (''fr'', ''Riyad'')],
              city_latitude = Some 24.7136, city_longitude = Some 46.6753\<rparr>,
             \<lparr>city_name = [(''en'', ''Diriyah''), (''ar'', ''Ad-Diriyya'')],
              city_latitude = Some 24.7343, city_longitude = Some 46.5725\<rparr>]\<rparr>]\<rparr>"

definition emptyEnglishCountry :: CountryData where
  "emptyEnglishCountry =
     \<lparr>code = ''xx'', iso3 = None, name = [(''en'', ''''), (''fr'', ''Pays'')], phone = ''+0'',
      currency = ''TST'', timezone = ''UTC'', flag = ''flag'', regions = []\<rparr>"

definition makeConfig :: "string list \<Rightarrow> bool \<Rightarrow> GeoDataConfig" where
  "makeConfig langs coords =
     \<lparr>outputDir = ''./src/data/geo'', languages = langs, includeCoordinates = coords,
      typescript = True\<rparr>"

text \<open>
  A remote registry whose network answers with \<open>net\<close>, called at time \<open>t\<close>; a network
  that is unreachable and one that serves the same body at every URL; a world whose cache
  holds one file.
\<close>

definition remoteEnv :: "(string \<Rightarrow> error + json) \<Rightarrow> int \<Rightarrow> Env" where
  "remoteEnv net t =
     \<lparr>REGISTRY_BASE = ''https://cdn.example/registry'', fetch = net,
      readJson = (\<lambda>p. Inl (Error ''ENOENT'')), pathJoin = concat, now = t, writeTime = t\<rparr>"

definition unreachable :: "string \<Rightarrow> error + json" where
  "unreachable url = Inl (Error ''fetch failed'')"

definition serving :: "json \<Rightarrow> string \<Rightarrow> error + json" where
  "serving body url = Inr body"

definition cachedWorld :: "string \<Rightarrow> json \<Rightarrow> int \<Rightarrow> World" where
  "cachedWorld k j t =
     \<lparr>cacheDir = [k \<mapsto> \<lparr>content = j, mtimeMs = t\<rparr>], warnings = [], requests = []\<rparr>"

definition emptyWorld :: World where
  "emptyWorld = \<lparr>cacheDir = Map.empty, warnings = [], requests = []\<rparr>"

definition sampleIndex :: RegistryIndex where
  "sampleIndex =
     \<lparr>version = ''1.0.0'',
      countries =
        [(''sa'', \<lparr>entry_name = \<lparr>en = ''Saudi Arabia'', ar = Some ''As-Saudiyya''\<rparr>,
                   entry_flag = ''flag'', entry_languages = [''en'', ''ar'']\<rparr>),
         (''us'', \<lparr>entry_name = \<lparr>en = ''United States'', ar = None\<rparr>,
                   entry_flag = ''flag'', entry_languages = [''en'']\<rparr>)]\<rparr>"

text \<open>A directory whose listing is \<open>files\<close>, in that order.\<close>

definition listing :: "string list \<Rightarrow> string \<Rightarrow> error + string list" where
  "listing files dir = Inr files"

text \<open>A heap that holds one country with one region and one city, and the country it holds.\<close>

definition smallHeap :: heap where
  "smallHeap =
     [Names [(''en'', ''Test Country''), (''fr'', ''Pays'')],
      Names [(''en'', ''Test Region'')],
      Names [(''en'', ''Zero City''), (''fr'', ''Ville Zero'')],
      CityObj 2 (Some 0) (Some 0),
      Array [3],
      RegionObj ''01'' 1 4,
      Array [5],
      CountryObj ''test'' None 0 ''+0'' ''TST'' ''UTC'' ''flag'' 6]"

definition smallCountry :: CountryData where
  "smallCountry =
     \<lparr>code = ''test'', iso3 = None, name = [(''en'', ''Test Country''), (''fr'', ''Pays'')],
      phone = ''+0'', currency = ''TST'', timezone = ''UTC'', flag = ''flag'',
      regions =
        [\<lparr>region_code = ''01'', region_name = [(''en'', ''Test Region'')],
          region_cities =
            [\<lparr>city_name = [(''en'', ''Zero City''), (''fr'', ''Ville Zero'')],
              city_latitude = Some 0, city_longitude = Some 0\<rparr>]\<rparr>]\<rparr>"

section \<open>Properties of the filter\<close>

lemma map_of_assign: "map_of (assign k v ps) = (map_of ps)(k \<mapsto> v)"
  by (induction ps) (auto simp: fun_eq_iff)

lemma map_of_fold_keep:
  "map_of (fold (keep nm) langs acc) l =
     (if l \<in> set langs \<and> truthy_prop (map_of nm l) then map_of nm l else map_of acc l)"
  by (induction langs arbitrary: acc) (auto simp: keep_def map_of_assign truthy_prop_def split: option.splits)

lemma filterName_keep:
  "filterName langs nm =
     (let filtered = fold (keep nm) langs []
      in if \<not> truthy_prop (map_of filtered ''en'') \<and> truthy_prop (map_of nm ''en'')
         then assign ''en'' (the (map_of nm ''en'')) filtered else filtered)"
  by (simp add: filterName_def keep_def)

lemma map_of_filterName:
  "map_of (filterName langs nm) l =
     (if (l \<in> set langs \<or> l = ''en'') \<and> truthy_prop (map_of nm l) then map_of nm l else None)"
  by (auto simp: filterName_keep Let_def map_of_assign map_of_fold_keep truthy_prop_def split: option.splits)

lemma keep_filterName:
  assumes "l \<in> set langs"
  shows "keep (filterName langs nm) l = keep nm l"
proof (cases "truthy_prop (map_of nm l)")
  case True
  with assms have "map_of (filterName langs nm) l = map_of nm l"
    by (simp add: map_of_filterName)
  with True show ?thesis by (simp add: keep_def)
next
  case False
  then have "map_of (filterName langs nm) l = None"
    by (simp add: map_of_filterName)
  with False show ?thesis by (simp add: keep_def truthy_prop_def)
qed

lemma filterName_idem: "filterName langs (filterName langs nm) = filterName langs nm"
proof -
  define F where "F = filterName langs nm"
  define G where "G = fold (keep nm) langs []"
  have G: "fold (keep F) langs [] = G"
    unfolding F_def G_def
    by (rule fold_cong) (simp_all add: keep_filterName)
  have again: "filterName langs F =
      (if \<not> truthy_prop (map_of G ''en'') \<and> truthy_prop (map_of F ''en'')
       then assign ''en'' (the (map_of F ''en'')) G else G)"
    by (simp add: filterName_keep G)
  have first: "F =
      (if \<not> truthy_prop (map_of G ''en'') \<and> truthy_prop (map_of nm ''en'')
       then assign ''en'' (the (map_of nm ''en'')) G else G)"
    by (simp add: F_def G_def filterName_keep)
  have en: "truthy_prop (map_of nm ''en'') \<Longrightarrow> map_of F ''en'' = map_of nm ''en''"
    by (simp add: F_def map_of_filterName)
  have "filterName langs F = F"
  proof (cases "\<not> truthy_prop (map_of G ''en'') \<and> truthy_prop (map_of nm ''en'')")
    case True
    with en first again show ?thesis by simp
  next
    case False
    with first have "F = G" by simp
    with False again show ?thesis by auto
  qed
  then show ?thesis by (simp add: F_def)
qed

lemma filterCountryData_alt:
  "filterCountryData d c =
     d\<lparr>name := filterName (languages c) (name d), regions := map (filterRegion c) (regions d)\<rparr>"
  unfolding filterCountryData_def filterRegion_def filterCity_def Let_def
  by (simp cong: if_cong)

lemma filterCountryData_regions:
  "regions (filterCountryData d config) = map (filterRegion config) (regions d)"
  by (simp add: filterCountryData_alt)

lemma filterCountryData_name:
  "name (filterCountryData d config) = filterName (languages config) (name d)"
  by (simp add: filterCountryData_alt)

lemma filterName_en:
  "map_of nm ''en'' = Some v \<Longrightarrow> v \<noteq> [] \<Longrightarrow> map_of (filterName langs nm) ''en'' = Some v"
  by (simp add: map_of_filterName truthy_prop_def)

subsection \<open>Own and inherited properties\<close>

text \<open>
  For language tags that name no member of \<open>Object.prototype\<close> the lookup through the
  prototype finds own properties only, \<open>filterName_proto\<close> is \<open>filterName\<close>, and a second
  application changes nothing.
\<close>

lemma en_not_inherited [simp]: "''en'' \<notin> set prototypeMembers"
  by (simp add: prototypeMembers_def)

lemma map_of_own_strings: "map_of (own_strings nm) k = map_option JString (map_of nm k)"
  by (induction nm) (auto simp: own_strings_def)

lemma get_prop_own_strings:
  "k \<notin> set prototypeMembers \<Longrightarrow> get_prop (own_strings nm) k = map_option JString (map_of nm k)"
  by (cases "map_of nm k") (simp_all add: get_prop_def map_of_own_strings)

lemma truthy_value_JString: "truthy_value (map_option JString v) = truthy_prop v"
  by (cases v) (simp_all add: truthy_value_def truthy_prop_def)

lemma assign_own_strings: "assign k (JString v) (own_strings acc) = own_strings (assign k v acc)"
  by (induction acc) (auto simp: own_strings_def)

lemma proto_key: "''__proto__'' \<in> set prototypeMembers"
  by (simp add: prototypeMembers_def)

lemma fold_own_strings:
  assumes "set langs \<inter> set prototypeMembers = {}"
  shows "fold (\<lambda>lang filtered.
                 if truthy_value (get_prop (own_strings nm) lang)
                 then set_own lang (the (get_prop (own_strings nm) lang)) filtered
                 else filtered)
              langs (own_strings acc)
         = own_strings (fold (keep nm) langs acc)"
  using assms
proof (induction langs arbitrary: acc)
  case Nil
  show ?case by simp
next
  case (Cons l langs)
  then have l: "l \<notin> set prototypeMembers" and rest: "set langs \<inter> set prototypeMembers = {}"
    by auto
  from l proto_key have n: "l \<noteq> ''__proto__''"
    by blast
  have g: "get_prop (own_strings nm) l = map_option JString (map_of nm l)"
    using l by (rule get_prop_own_strings)
  show ?case
  proof (cases "truthy_prop (map_of nm l)")
    case True
    then obtain v where v: "map_of nm l = Some v"
      by (cases "map_of nm l") (simp_all add: truthy_prop_def)
    with True n show ?thesis
      using Cons.IH [OF rest, of "assign l v acc"]
      by (simp add: g truthy_value_def truthy_prop_def set_own_def assign_own_strings keep_def)
  next
    case False
    then show ?thesis
      using Cons.IH [OF rest, of acc] by (simp add: g truthy_value_JString keep_def)
  qed
qed

lemma filterName_proto_own_strings:
  assumes "set langs \<inter> set prototypeMembers = {}"
  shows "filterName_proto langs (own_strings nm) = own_strings (filterName langs nm)"
proof -
  have e: "own_strings [] = []"
    by (simp add: own_strings_def)
  have f: "fold (\<lambda>lang filtered.
                 if truthy_value (get_prop (own_strings nm) lang)
                 then set_own lang (the (get_prop (own_strings nm) lang)) filtered
                 else filtered)
              langs []
         = own_strings (fold (keep nm) langs [])"
    using fold_own_strings [OF assms, of nm "[]"] by (simp add: e)
  have t: "truthy_value (get_prop (own_strings m) ''en'') = truthy_prop (map_of m ''en'')" for m
    by (simp add: get_prop_own_strings truthy_value_JString)
  show ?thesis
  proof (cases "\<not> truthy_prop (map_of (fold (keep nm) langs []) ''en'') \<and> truthy_prop (map_of nm ''en'')")
    case True
    then obtain v where v: "map_of nm ''en'' = Some v"
      by (cases "map_of nm ''en''") (simp_all add: truthy_prop_def)
    have g: "get_prop (own_strings nm) ''en'' = Some (JString v)"
      by (simp add: get_prop_own_strings v)
    have "filterName_proto langs (own_strings nm)
          = set_own ''en'' (JString v) (own_strings (fold (keep nm) langs []))"
      unfolding filterName_proto_def f Let_def t using True by (simp add: g)
    also have "\<dots> = own_strings (assign ''en'' v (fold (keep nm) langs []))"
      by (simp add: set_own_def assign_own_strings)
    also have "\<dots> = own_strings (filterName langs nm)"
      unfolding filterName_keep using True by (simp add: v)
    finally show ?thesis .
  next
    case False
    have "filterName_proto langs (own_strings nm) = own_strings (fold (keep nm) langs [])"
      unfolding filterName_proto_def f Let_def t using False by auto
    also have "\<dots> = own_strings (filterName langs nm)"
      unfolding filterName_keep using False by auto
    finally show ?thesis .
  qed
qed

lemma filterName_proto_idem:
  assumes "set langs \<inter> set prototypeMembers = {}"
  shows "filterName_proto langs (filterName_proto langs (own_strings nm))
         = filterName_proto langs (own_strings nm)"
  by (simp add: filterName_proto_own_strings [OF assms] filterName_idem)

section \<open>Properties of the schemas and of the registry calls\<close>

lemma z_entries_names: "z_entries z_string (map (\<lambda>(k, v). (k, JStr v)) n) = Some n"
  by (induction n) auto

lemma names_roundtrip: "z_record z_string (json_names n) = Some n"
  by (simp add: json_names_def z_entries_names)

lemma City_roundtrip: "CitySchema (json_City c) = Some c"
  by (cases "city_latitude c"; cases "city_longitude c")
     (simp_all add: CitySchema_def json_City_def json_opt_def z_required_def z_optional_def names_roundtrip)

lemma Cities_roundtrip: "z_elements CitySchema (map json_City cs) = Some cs"
  by (induction cs) (simp_all add: City_roundtrip)

lemma Region_roundtrip: "RegionSchema (json_Region r) = Some r"
  by (simp add: RegionSchema_def json_Region_def z_required_def names_roundtrip Cities_roundtrip)

lemma Regions_roundtrip: "z_elements RegionSchema (map json_Region rs) = Some rs"
  by (induction rs) (simp_all add: Region_roundtrip)

lemma CountryData_roundtrip: "CountryDataSchema (json_CountryData d) = Some d"
  by (cases "iso3 d")
     (simp_all add: CountryDataSchema_def json_CountryData_def json_opt_def z_required_def z_optional_def
        names_roundtrip Regions_roundtrip)

lemma strings_roundtrip: "z_elements z_string (map JStr ls) = Some ls"
  by (induction ls) simp_all

lemma IndexEntry_roundtrip: "IndexEntrySchema (json_IndexEntry e) = Some e"
  by (cases "ar (entry_name e)")
     (simp_all add: IndexEntrySchema_def IndexNameSchema_def json_IndexEntry_def json_opt_def
        z_required_def z_optional_def strings_roundtrip)

lemma IndexEntries_roundtrip:
  "z_entries IndexEntrySchema (map (\<lambda>(k, e). (k, json_IndexEntry e)) cs) = Some cs"
  by (induction cs) (auto simp: IndexEntry_roundtrip)

lemma RegistryIndex_roundtrip: "RegistryIndexSchema (json_RegistryIndex r) = Some r"
  by (simp add: RegistryIndexSchema_def json_RegistryIndex_def z_required_def IndexEntries_roundtrip)

lemma remote_not_local:
  "isRemoteRegistry b \<Longrightarrow> \<not> isAbsolute (b @ t) \<and> \<not> startsWith (b @ t) ''.''"
  by (cases b) (auto simp: isRemoteRegistry_def isAbsolute_def)

lemma fetchJson_remote:
  "isRemoteRegistry b \<Longrightarrow>
   fetchJson env w (b @ t) = (fetch env (b @ t), w\<lparr>requests := requests w @ [b @ t]\<rparr>)"
  using remote_not_local [of b t] by (simp add: fetchJson_def)


lemma readStaleCache_requests [simp]:
  "readStaleCache (w\<lparr>requests := rs\<rparr>) k = readStaleCache w k"
  by (simp add: readStaleCache_def)

lemma fetchCountry_hit:
  assumes "isRemoteRegistry (REGISTRY_BASE env)"
    and "truthy (readCache env w (''country-'' @ cc) (24 * 60 * 60 * 1000))"
  shows "fetchCountry env w cc config =
     (case CountryDataSchema (readCache env w (''country-'' @ cc) (24 * 60 * 60 * 1000)) of
        None \<Rightarrow> (Inr None, warn (CountryDataInvalid cc) w)
      | Some d \<Rightarrow> (Inr (Some (filterCountryData d config)),
                   writeCache env w (''country-'' @ cc) (json_CountryData d)))"
  using assms by (simp add: fetchCountry_def split: option.splits)

lemma fetchCountry_fetched:
  assumes "isRemoteRegistry (REGISTRY_BASE env)"
    and "\<not> truthy (readCache env w (''country-'' @ cc) (24 * 60 * 60 * 1000))"
    and "fetch env (REGISTRY_BASE env @ ''/countries/'' @ cc @ ''.json'') = Inr body"
  shows "fetchCountry env w cc config =
     (let w0 = w\<lparr>requests := requests w @ [REGISTRY_BASE env @ ''/countries/'' @ cc @ ''.json'']\<rparr>
      in case CountryDataSchema body of
           None \<Rightarrow> (Inr None, warn (CountryDataInvalid cc) w0)
         | Some d \<Rightarrow> (Inr (Some (filterCountryData d config)),
                      writeCache env w0 (''country-'' @ cc) (json_CountryData d)))"
  using assms by (simp add: fetchCountry_def fetchJson_remote split: option.splits)

lemma fetchCountry_failed:
  assumes "isRemoteRegistry (REGISTRY_BASE env)"
    and "\<not> truthy (readCache env w (''country-'' @ cc) (24 * 60 * 60 * 1000))"
    and "fetch env (REGISTRY_BASE env @ ''/countries/'' @ cc @ ''.json'') = Inl e"
  shows "fetchCountry env w cc config =
     (let w0 = w\<lparr>requests := requests w @ [REGISTRY_BASE env @ ''/countries/'' @ cc @ ''.json'']\<rparr>
      in if truthy (readStaleCache w (''country-'' @ cc))
         then (case CountryDataSchema (readStaleCache w (''country-'' @ cc)) of
                 None \<Rightarrow> (Inr None, warn (CountryDataInvalid cc) (warn NetworkUnavailable w0))
               | Some d \<Rightarrow> (Inr (Some (filterCountryData d config)),
                            writeCache env (warn NetworkUnavailable w0) (''country-'' @ cc)
                              (json_CountryData d)))
         else (Inl e, w0))"
  using assms by (simp add: fetchCountry_def fetchJson_remote Let_def split: option.splits)

lemma fetchRegistry_hit:
  assumes "isRemoteRegistry (REGISTRY_BASE env)"
    and "truthy (readCache env w ''registry-index'' (60 * 60 * 1000))"
  shows "fetchRegistry env w =
     (case RegistryIndexSchema (readCache env w ''registry-index'' (60 * 60 * 1000)) of
        None \<Rightarrow> (Inr None, warn RegistryIndexInvalid w)
      | Some d \<Rightarrow> (Inr (Some d), writeCache env w ''registry-index'' (json_RegistryIndex d)))"
  using assms by (simp add: fetchRegistry_def split: option.splits)

lemma fetchRegistry_fetched:
  assumes "isRemoteRegistry (REGISTRY_BASE env)"
    and "\<not> truthy (readCache env w ''registry-index'' (60 * 60 * 1000))"
    and "fetch env (REGISTRY_BASE env @ ''/index.json'') = Inr body"
  shows "fetchRegistry env w =
     (let w0 = w\<lparr>requests := requests w @ [REGISTRY_BASE env @ ''/index.json'']\<rparr>
      in case RegistryIndexSchema body of
           None \<Rightarrow> (Inr None, warn RegistryIndexInvalid w0)
         | Some d \<Rightarrow> (Inr (Some d), writeCache env w0 ''registry-index'' (json_RegistryIndex d)))"
  using assms by (simp add: fetchRegistry_def fetchJson_remote split: option.splits)

lemma fetchRegistry_failed:
  assumes "isRemoteRegistry (REGISTRY_BASE env)"
    and "\<not> truthy (readCache env w ''registry-index'' (60 * 60 * 1000))"
    and "fetch env (REGISTRY_BASE env @ ''/index.json'') = Inl e"
  shows "fetchRegistry env w =
     (let w0 = w\<lparr>requests := requests w @ [REGISTRY_BASE env @ ''/index.json'']\<rparr>
      in if truthy (readStaleCache w ''registry-index'')
         then (case RegistryIndexSchema (readStaleCache w ''registry-index'') of
                 None \<Rightarrow> (Inr None, warn RegistryIndexInvalid (warn NetworkUnavailable w0))
               | Some d \<Rightarrow> (Inr (Some d),
                            writeCache env (warn NetworkUnavailable w0) ''registry-index''
                              (json_RegistryIndex d)))
         else (Inl e, w0))"
  using assms by (simp add: fetchRegistry_def fetchJson_remote Let_def split: option.splits)


lemma CountryData_truthy: "CountryDataSchema j = Some d \<Longrightarrow> truthy j"
  by (cases j) (simp_all add: CountryDataSchema_def)

lemma RegistryIndex_truthy: "RegistryIndexSchema j = Some d \<Longrightarrow> truthy j"
  by (cases j) (simp_all add: RegistryIndexSchema_def)

lemma cacheDir_warn [simp]: "cacheDir (warn m w) = cacheDir w"
  by (simp add: warn_def)

lemma requests_warn [simp]: "requests (warn m w) = requests w"
  by (simp add: warn_def)

lemma warnings_warn [simp]: "warnings (warn m w) = warnings w @ [m]"
  by (simp add: warn_def)

lemma writeCache_sel [simp]:
  "cacheDir (writeCache env w k j) = (cacheDir w)(k \<mapsto> \<lparr>content = j, mtimeMs = writeTime env\<rparr>)"
  "warnings (writeCache env w k j) = warnings w"
  "requests (writeCache env w k j) = requests w"
  by (simp_all add: writeCache_def)

lemma cacheValidated_cong: "cacheDir w' = cacheDir w \<Longrightarrow> cacheValidated w' = cacheValidated w"
  by (simp add: cacheValidated_def)

lemma cacheValidated_write_index:
  "cacheValidated w \<Longrightarrow> cacheValidated (writeCache env w ''registry-index'' (json_RegistryIndex d))"
  by (simp add: cacheValidated_def RegistryIndex_roundtrip)

lemma cacheValidated_write_country:
  "cacheValidated w \<Longrightarrow> cacheValidated (writeCache env w (''country-'' @ cc) (json_CountryData d))"
  by (simp add: cacheValidated_def CountryData_roundtrip)

lemma fetchJson_cacheDir: "cacheDir (snd (fetchJson env w u)) = cacheDir w"
  by (simp add: fetchJson_def)

lemma cacheDir_requests [simp]: "cacheDir (w\<lparr>requests := rs\<rparr>) = cacheDir w"
  by simp

lemma fetchRegistry_final:
  "\<exists>data w1. cacheDir w1 = cacheDir w \<and>
     fetchRegistry env w =
       (case data of
           Inl error \<Rightarrow> (Inl error, w1)
         | Inr payload \<Rightarrow>
             (case RegistryIndexSchema payload of
                None \<Rightarrow> (Inr None, warn RegistryIndexInvalid w1)
              | Some result \<Rightarrow>
                  (Inr (Some result),
                   if isRemoteRegistry (REGISTRY_BASE env)
                   then writeCache env w1 ''registry-index'' (json_RegistryIndex result)
                   else w1)))"
proof -
  define url where "url = (if isRemoteRegistry (REGISTRY_BASE env)
                 then REGISTRY_BASE env @ ''/index.json''
                 else pathJoin env [REGISTRY_BASE env, ''index.json''])"
  define stage where "stage =
            (if isRemoteRegistry (REGISTRY_BASE env) then
               let cached = readCache env w ''registry-index'' (60 * 60 * 1000) in
               if truthy cached then (Inr cached, w)
               else
                 (case fetchJson env w url of
                    (body, w0) \<Rightarrow>
                      (case body of
                         Inr fetched \<Rightarrow> (Inr fetched, w0)
                       | Inl error \<Rightarrow>
                           let stale = readStaleCache w0 ''registry-index'' in
                           if truthy stale then (Inr stale, warn NetworkUnavailable w0)
                           else (Inl error, w0)))
             else fetchJson env w url)"
  have "cacheDir (snd stage) = cacheDir w"
    unfolding stage_def using fetchJson_cacheDir [of env w url]
    by (auto simp: Let_def split: prod.splits sum.splits)
  moreover have "fetchRegistry env w =
       (case fst stage of
           Inl error \<Rightarrow> (Inl error, snd stage)
         | Inr payload \<Rightarrow>
             (case RegistryIndexSchema payload of
                None \<Rightarrow> (Inr None, warn RegistryIndexInvalid (snd stage))
              | Some result \<Rightarrow>
                  (Inr (Some result),
                   if isRemoteRegistry (REGISTRY_BASE env)
                   then writeCache env (snd stage) ''registry-index'' (json_RegistryIndex result)
                   else snd stage)))"
    unfolding fetchRegistry_def stage_def url_def Let_def
    by (simp add: case_prod_beta)
  ultimately show ?thesis by blast
qed

lemma fetchRegistry_cacheValidated:
  assumes "cacheValidated w"
  shows "cacheValidated (snd (fetchRegistry env w))"
proof -
  obtain data w1 where w1: "cacheDir w1 = cacheDir w"
    and f: "fetchRegistry env w =
       (case data of
           Inl error \<Rightarrow> (Inl error, w1)
         | Inr payload \<Rightarrow>
             (case RegistryIndexSchema payload of
                None \<Rightarrow> (Inr None, warn RegistryIndexInvalid w1)
              | Some result \<Rightarrow>
                  (Inr (Some result),
                   if isRemoteRegistry (REGISTRY_BASE env)
                   then writeCache env w1 ''registry-index'' (json_RegistryIndex result)
                   else w1)))"
    using fetchRegistry_final [of w env] by blast
  have v1: "cacheValidated w1"
    using cacheValidated_cong [OF w1] assms by simp
  have v2: "cacheValidated (warn m w1)" for m
    using cacheValidated_cong [of "warn m w1" w1] v1 by simp
  show ?thesis
    unfolding f using v1 v2 cacheValidated_write_index [OF v1]
    by (simp split: sum.splits option.splits)
qed


lemma fetchCountry_final:
  "\<exists>raw w1. cacheDir w1 = cacheDir w \<and>
     (\<forall>config. fetchCountry env w cc config =
       (case raw of
           Inl error \<Rightarrow> (Inl error, w1)
         | Inr payload \<Rightarrow>
             (case CountryDataSchema payload of
                None \<Rightarrow> (Inr None, warn (CountryDataInvalid cc) w1)
              | Some result \<Rightarrow>
                  (Inr (Some (filterCountryData result config)),
                   if isRemoteRegistry (REGISTRY_BASE env)
                   then writeCache env w1 (''country-'' @ cc) (json_CountryData result)
                   else w1))))"
proof -
  define url where "url = (if isRemoteRegistry (REGISTRY_BASE env)
                 then REGISTRY_BASE env @ ''/countries/'' @ cc @ ''.json''
                 else pathJoin env [REGISTRY_BASE env, ''countries'', cc @ ''.json''])"
  define stage where "stage =
            (if isRemoteRegistry (REGISTRY_BASE env) then
               let cached = readCache env w (''country-'' @ cc) (24 * 60 * 60 * 1000) in
               if truthy cached then (Inr cached, w)
               else
                 (case fetchJson env w url of
                    (body, w0) \<Rightarrow>
                      (case body of
                         Inr fetched \<Rightarrow> (Inr fetched, w0)
                       | Inl error \<Rightarrow>
                           let stale = readStaleCache w0 (''country-'' @ cc) in
                           if truthy stale then (Inr stale, warn NetworkUnavailable w0)
                           else (Inl error, w0)))
             else fetchJson env w url)"
  have "cacheDir (snd stage) = cacheDir w"
    unfolding stage_def using fetchJson_cacheDir [of env w url]
    by (auto simp: Let_def split: prod.splits sum.splits)
  moreover have "fetchCountry env w cc config =
       (case fst stage of
           Inl error \<Rightarrow> (Inl error, snd stage)
         | Inr payload \<Rightarrow>
             (case CountryDataSchema payload of
                None \<Rightarrow> (Inr None, warn (CountryDataInvalid cc) (snd stage))
              | Some result \<Rightarrow>
                  (Inr (Some (filterCountryData result config)),
                   if isRemoteRegistry (REGISTRY_BASE env)
                   then writeCache env (snd stage) (''country-'' @ cc) (json_CountryData result)
                   else snd stage)))" for config
    unfolding fetchCountry_def stage_def url_def Let_def
    by (simp add: case_prod_beta)
  ultimately show ?thesis by blast
qed

lemma fetchCountry_cacheValidated:
  assumes "cacheValidated w"
  shows "cacheValidated (snd (fetchCountry env w cc config))"
proof -
  obtain raw w1 where w1: "cacheDir w1 = cacheDir w"
    and f: "fetchCountry env w cc config =
       (case raw of
           Inl error \<Rightarrow> (Inl error, w1)
         | Inr payload \<Rightarrow>
             (case CountryDataSchema payload of
                None \<Rightarrow> (Inr None, warn (CountryDataInvalid cc) w1)
              | Some result \<Rightarrow>
                  (Inr (Some (filterCountryData result config)),
                   if isRemoteRegistry (REGISTRY_BASE env)
                   then writeCache env w1 (''country-'' @ cc) (json_CountryData result)
                   else w1)))"
    using fetchCountry_final [of w env cc] by blast
  have v1: "cacheValidated w1"
    using cacheValidated_cong [OF w1] assms by simp
  have v2: "cacheValidated (warn m w1)" for m
    using cacheValidated_cong [of "warn m w1" w1] v1 by simp
  show ?thesis
    unfolding f using v1 v2 cacheValidated_write_country [OF v1]
    by (simp split: sum.splits option.splits)
qed

lemma fetchCountry_success:
  assumes "isRemoteRegistry (REGISTRY_BASE env)"
    and "fetchCountry env w cc config = (Inr (Some view), w2)"
  shows "\<exists>full w1. view = filterCountryData full config \<and>
           w2 = writeCache env w1 (''country-'' @ cc) (json_CountryData full) \<and>
           (\<forall>config'. fetchCountry env w cc config' = (Inr (Some (filterCountryData full config')), w2))"
proof -
  obtain raw w1 where f: "\<And>config. fetchCountry env w cc config =
       (case raw of
           Inl error \<Rightarrow> (Inl error, w1)
         | Inr payload \<Rightarrow>
             (case CountryDataSchema payload of
                None \<Rightarrow> (Inr None, warn (CountryDataInvalid cc) w1)
              | Some result \<Rightarrow>
                  (Inr (Some (filterCountryData result config)),
                   if isRemoteRegistry (REGISTRY_BASE env)
                   then writeCache env w1 (''country-'' @ cc) (json_CountryData result)
                   else w1)))"
    using fetchCountry_final [of w env cc] by blast
  from assms(2) obtain payload full where "raw = Inr payload"
    and "CountryDataSchema payload = Some full"
    and "view = filterCountryData full config"
    and "w2 = writeCache env w1 (''country-'' @ cc) (json_CountryData full)"
    unfolding f [of config] using assms(1)
    by (auto split: sum.splits option.splits)
  then show ?thesis
    using assms(1) by (intro exI [of _ full] exI [of _ w1]) (simp add: f)
qed

lemma fetchRegistry_success:
  assumes "isRemoteRegistry (REGISTRY_BASE env)"
    and "fetchRegistry env w = (Inr (Some idx), w2)"
  shows "\<exists>w1. w2 = writeCache env w1 ''registry-index'' (json_RegistryIndex idx)"
proof -
  obtain data w1 where f: "fetchRegistry env w =
       (case data of
           Inl error \<Rightarrow> (Inl error, w1)
         | Inr payload \<Rightarrow>
             (case RegistryIndexSchema payload of
                None \<Rightarrow> (Inr None, warn RegistryIndexInvalid w1)
              | Some result \<Rightarrow>
                  (Inr (Some result),
                   if isRemoteRegistry (REGISTRY_BASE env)
                   then writeCache env w1 ''registry-index'' (json_RegistryIndex result)
                   else w1)))"
    using fetchRegistry_final [of w env] by blast
  from assms(2) show ?thesis
    unfolding f using assms(1)
    by (auto split: sum.splits option.splits)
qed

lemma readCache_written:
  "now env' - writeTime env < maxAge \<Longrightarrow>
   readCache env' (writeCache env w k j) k maxAge = j"
  by (simp add: readCache_def)

lemma remoteEnv_sel [simp]:
  "isRemoteRegistry (REGISTRY_BASE (remoteEnv net t))"
  "fetch (remoteEnv net t) = net"
  "now (remoteEnv net t) = t"
  "writeTime (remoteEnv net t) = t"
  by (simp_all add: remoteEnv_def isRemoteRegistry_def)

lemma cachedWorld_sel [simp]:
  "cacheDir (cachedWorld k j t) = [k \<mapsto> \<lparr>content = j, mtimeMs = t\<rparr>]"
  "warnings (cachedWorld k j t) = []"
  "requests (cachedWorld k j t) = []"
  by (simp_all add: cachedWorld_def)

lemma cacheValidated_country:
  "cacheValidated (cachedWorld (''country-'' @ cc) (json_CountryData d) t)"
  by (auto simp: cacheValidated_def CountryData_roundtrip split: if_splits)

lemma stale_present:
  "cacheDir w k = Some file \<Longrightarrow> readStaleCache w k = content file"
  by (simp add: readStaleCache_def)

lemma stale_absent: "cacheDir w k = None \<Longrightarrow> readStaleCache w k = JNull"
  by (simp add: readStaleCache_def)

lemma first_download:
  "fetchCountry (remoteEnv (serving (json_CountryData d)) t) emptyWorld cc config =
     (Inr (Some (filterCountryData d config)),
      writeCache (remoteEnv (serving (json_CountryData d)) t)
        (emptyWorld\<lparr>requests := [''https://cdn.example/registry'' @ ''/countries/'' @ cc @ ''.json'']\<rparr>)
        (''country-'' @ cc) (json_CountryData d))"
proof -
  have r: "isRemoteRegistry (REGISTRY_BASE (remoteEnv (serving (json_CountryData d)) t))"
    by simp
  have m: "\<not> truthy (readCache (remoteEnv (serving (json_CountryData d)) t) emptyWorld
              (''country-'' @ cc) (24 * 60 * 60 * 1000))"
    by (simp add: readCache_def emptyWorld_def)
  have b: "fetch (remoteEnv (serving (json_CountryData d)) t)
             (REGISTRY_BASE (remoteEnv (serving (json_CountryData d)) t) @ ''/countries/'' @ cc @ ''.json'')
           = Inr (json_CountryData d)"
    by (simp add: serving_def)
  have q: "requests emptyWorld = []"
    by (simp add: emptyWorld_def)
  have u: "REGISTRY_BASE (remoteEnv (serving (json_CountryData d)) t) = ''https://cdn.example/registry''"
    by (simp add: remoteEnv_def)
  show ?thesis
    using fetchCountry_fetched [OF r m b, of config]
    by (simp add: CountryData_roundtrip Let_def q u)
qed

lemma json_CountryData_inj: "json_CountryData a = json_CountryData b \<Longrightarrow> a = b"
  by (metis CountryData_roundtrip option.inject)

lemma readCache_fresh:
  "cacheDir w k = Some entry \<Longrightarrow> now env - mtimeMs entry < maxAge \<Longrightarrow>
   readCache env w k maxAge = content entry"
  by (simp add: readCache_def)

lemma readCache_old:
  "cacheDir w k = Some entry \<Longrightarrow> \<not> now env - mtimeMs entry < maxAge \<Longrightarrow>
   readCache env w k maxAge = JNull"
  by (simp add: readCache_def)

lemma readCache_falsy:
  "cacheDir w k = Some entry \<Longrightarrow> \<not> truthy (content entry) \<Longrightarrow>
   \<not> truthy (readCache env w k maxAge)"
  by (simp add: readCache_def)

lemma fetchRegistry_falsy_entry:
  assumes r: "isRemoteRegistry (REGISTRY_BASE env)"
    and c: "cacheDir w ''registry-index'' = Some entry"
    and f: "\<not> truthy (content entry)"
  shows "requests (snd (fetchRegistry env w)) = requests w @ [REGISTRY_BASE env @ ''/index.json'']"
    and "fetch env (REGISTRY_BASE env @ ''/index.json'') = Inl e \<Longrightarrow>
         fetchRegistry env w
           = (Inl e, w\<lparr>requests := requests w @ [REGISTRY_BASE env @ ''/index.json'']\<rparr>)"
proof -
  have m: "\<not> truthy (readCache env w ''registry-index'' (60 * 60 * 1000))"
    using c f by (rule readCache_falsy)
  have s: "\<not> truthy (readStaleCache w ''registry-index'')"
    using c f by (simp add: stale_present)
  show "requests (snd (fetchRegistry env w)) = requests w @ [REGISTRY_BASE env @ ''/index.json'']"
  proof (cases "fetch env (REGISTRY_BASE env @ ''/index.json'')")
    case (Inl e)
    from fetchRegistry_failed [OF r m Inl] s show ?thesis
      by (simp add: Let_def)
  next
    case (Inr body)
    from fetchRegistry_fetched [OF r m Inr] show ?thesis
      by (simp add: Let_def split: option.splits)
  qed
  show "fetchRegistry env w
           = (Inl e, w\<lparr>requests := requests w @ [REGISTRY_BASE env @ ''/index.json'']\<rparr>)"
    if "fetch env (REGISTRY_BASE env @ ''/index.json'') = Inl e"
    using fetchRegistry_failed [OF r m that] s by (simp add: Let_def)
qed

lemma fetchCountry_falsy_entry:
  assumes r: "isRemoteRegistry (REGISTRY_BASE env)"
    and c: "cacheDir w (''country-'' @ cc) = Some entry"
    and f: "\<not> truthy (content entry)"
  shows "requests (snd (fetchCountry env w cc config))
           = requests w @ [REGISTRY_BASE env @ ''/countries/'' @ cc @ ''.json'']"
    and "fetch env (REGISTRY_BASE env @ ''/countries/'' @ cc @ ''.json'') = Inl e \<Longrightarrow>
         fetchCountry env w cc config
           = (Inl e, w\<lparr>requests := requests w @ [REGISTRY_BASE env @ ''/countries/'' @ cc @ ''.json'']\<rparr>)"
proof -
  have m: "\<not> truthy (readCache env w (''country-'' @ cc) (24 * 60 * 60 * 1000))"
    using c f by (rule readCache_falsy)
  have s: "\<not> truthy (readStaleCache w (''country-'' @ cc))"
    using c f by (simp add: stale_present)
  show "requests (snd (fetchCountry env w cc config))
           = requests w @ [REGISTRY_BASE env @ ''/countries/'' @ cc @ ''.json'']"
  proof (cases "fetch env (REGISTRY_BASE env @ ''/countries/'' @ cc @ ''.json'')")
    case (Inl e)
    from fetchCountry_failed [OF r m Inl, of config] s show ?thesis
      by (simp add: Let_def)
  next
    case (Inr body)
    from fetchCountry_fetched [OF r m Inr, of config] show ?thesis
      by (simp add: Let_def split: option.splits)
  qed
  show "fetchCountry env w cc config
           = (Inl e, w\<lparr>requests := requests w @ [REGISTRY_BASE env @ ''/countries/'' @ cc @ ''.json'']\<rparr>)"
    if "fetch env (REGISTRY_BASE env @ ''/countries/'' @ cc @ ''.json'') = Inl e"
    using fetchCountry_failed [OF r m that, of config] s by (simp add: Let_def)
qed

section \<open>Properties of the listing of installed countries\<close>

lemma sort_mset_eq: "mset xs = mset ys \<Longrightarrow> sort xs = sort (ys :: 'a :: linorder list)"
  by (rule properties_for_sort) simp_all

text \<open>
  \<open>getInstalledCountries\<close> itself keeps the order of the directory listing: the order
  of the generated module comes from the generator's sort.
\<close>

lemma getInstalledCountries_listing_order:
  "getInstalledCountries (listing [''us.json'', ''index.json'', ''sa.json'', ''index.ts'']) dir
     = [''us'', ''sa'']"
  by (simp add: getInstalledCountries_def listing_def endsWith_def)

section \<open>Properties of the heap model\<close>

lemma at_append [simp]:
  "r < length h \<Longrightarrow> names_at (h @ e) r = names_at h r"
  "r < length h \<Longrightarrow> array_at (h @ e) r = array_at h r"
  "r < length h \<Longrightarrow> city_at (h @ e) r = city_at h r"
  "r < length h \<Longrightarrow> region_at (h @ e) r = region_at h r"
  "r < length h \<Longrightarrow> country_at (h @ e) r = country_at h r"
  by (simp_all add: names_at_def array_at_def city_at_def region_at_def country_at_def nth_append)

lemma at_Some_bound:
  "names_at h r = Some n \<Longrightarrow> r < length h"
  "array_at h r = Some xs \<Longrightarrow> r < length h"
  "city_at h r = Some c \<Longrightarrow> r < length h"
  "region_at h r = Some g \<Longrightarrow> r < length h"
  "country_at h r = Some d \<Longrightarrow> r < length h"
  by (simp_all add: names_at_def array_at_def city_at_def region_at_def country_at_def split: if_splits)

lemma at_new [simp]:
  "names_at (h @ Names n # e) (length h) = Some n"
  "array_at (h @ Array xs # e) (length h) = Some xs"
  "city_at (h @ CityObj nm la lo # e) (length h) = Some (nm, la, lo)"
  "region_at (h @ RegionObj c nm cs # e) (length h) = Some (c, nm, cs)"
  "country_at (h @ CountryObj c i nm ph cu tz fl rs # e) (length h) = Some (c, i, nm, ph, cu, tz, fl, rs)"
  by (simp_all add: names_at_def array_at_def city_at_def region_at_def country_at_def)

lemma keep_loop:
  assumes "names_at h nm = Some n"
  shows "for_of (\<lambda>lang h'.
               do {
                 n \<leftarrow> names_at h' nm;
                 if truthy_prop (map_of n lang)
                 then set_prop (length h) lang (the (map_of n lang)) h'
                 else Some h'
               }) langs (h @ [Names acc])
         = Some (h @ [Names (fold (keep n) langs acc)])"
proof (induction langs arbitrary: acc)
  case Nil
  show ?case by simp
next
  case (Cons lang langs)
  have b: "nm < length h"
    using assms by (rule at_Some_bound)
  show ?case
    using assms b Cons.IH by (simp add: set_prop_def keep_def)
qed

lemma filterName_heap_exact:
  assumes "names_at h nm = Some n"
  shows "filterName_heap langs nm h = Some (length h, h @ [Names (filterName langs n)])"
proof -
  have b: "nm < length h"
    using assms by (rule at_Some_bound)
  show ?thesis
    unfolding filterName_heap_def alloc_def
    using assms b by (simp add: keep_loop filterName_keep set_prop_def Let_def)
qed

lemma set_new [simp]:
  "set_prop (length h) k v (h @ [Names n]) = Some (h @ [Names (assign k v n)])"
  "set_latitude (length h) x (h @ [CityObj nm la lo]) = Some (h @ [CityObj nm x lo])"
  "set_longitude (length h) x (h @ [CityObj nm la lo]) = Some (h @ [CityObj nm la x])"
  by (simp_all add: set_prop_def set_latitude_def set_longitude_def)

lemma filterCity_heap_exact:
  assumes "city_at h city = Some (nm, la, lo)" and "names_at h nm = Some n"
  shows "filterCity_heap config city h =
     Some (Suc (length h),
           h @ [Names (filterName (languages config) n),
                if includeCoordinates config \<and> la \<noteq> None \<and> lo \<noteq> None
                then CityObj (length h) la lo else CityObj (length h) None None])"
proof -
  define h1 where "h1 = h @ [Names (filterName (languages config) n)]"
  have b: "city < length h"
    using assms(1) by (rule at_Some_bound)
  have c: "city_at (h1 @ e) city = Some (nm, la, lo)" for e
    using assms(1) b by (simp add: h1_def)
  have l: "length h1 = Suc (length h)"
    by (simp add: h1_def)
  have fn: "filterName_heap (languages config) nm h = Some (length h, h1)"
    unfolding h1_def using assms(2) by (rule filterName_heap_exact)
  have "filterCity_heap config city h =
     Some (length h1,
           h1 @ [if includeCoordinates config \<and> la \<noteq> None \<and> lo \<noteq> None
                 then CityObj (length h) la lo else CityObj (length h) None None])"
    unfolding filterCity_heap_def using assms(1) fn c
    by (auto simp: alloc_def)
  then show ?thesis
    by (simp add: l) (simp add: h1_def)
qed

lemma stable_append: "stable ld \<Longrightarrow> ld lo h r = Some v \<Longrightarrow> ld lo (h @ e) r = Some v"
  unfolding stable_def by blast

lemma stable_lower: "stable ld \<Longrightarrow> ld lo h r = Some v \<Longrightarrow> lo' \<le> lo \<Longrightarrow> ld lo' h r = Some v"
  unfolding stable_def by blast

lemma load_all_length: "load_all ld xs = Some vs \<Longrightarrow> length vs = length xs"
  by (induction xs arbitrary: vs) (auto split: option.splits)

lemma load_all_nth: "load_all ld xs = Some vs \<Longrightarrow> i < length xs \<Longrightarrow> ld (xs ! i) = Some (vs ! i)"
proof (induction xs arbitrary: vs i)
  case Nil
  then show ?case by simp
next
  case (Cons x xs)
  then show ?case by (cases i) (auto split: option.splits)
qed

lemma load_all_cong:
  "load_all ld xs = Some vs \<Longrightarrow> (\<And>x v. ld x = Some v \<Longrightarrow> ld' x = Some v) \<Longrightarrow>
   load_all ld' xs = Some vs"
  by (induction xs arbitrary: vs) (auto split: option.splits)

lemma at_extend:
  "names_at h r = Some n \<Longrightarrow> names_at (h @ e) r = Some n"
  "array_at h r = Some xs \<Longrightarrow> array_at (h @ e) r = Some xs"
  "city_at h r = Some c \<Longrightarrow> city_at (h @ e) r = Some c"
  "region_at h r = Some g \<Longrightarrow> region_at (h @ e) r = Some g"
  "country_at h r = Some d \<Longrightarrow> country_at (h @ e) r = Some d"
  using at_Some_bound [of h r] by simp_all

lemma stable_names: "stable load_names"
  unfolding stable_def load_names_def
  by (auto split: if_splits simp: at_extend)

lemma stable_array:
  assumes "stable ld"
  shows "stable (load_array ld)"
  unfolding stable_def
proof (intro conjI allI impI)
  fix lo h r vs e
  assume a: "load_array ld lo h r = Some vs"
  then obtain xs where x: "lo \<le> r" "array_at h r = Some xs" "load_all (ld lo h) xs = Some vs"
    by (auto simp: load_array_def split: if_splits Option.bind_splits)
  have "load_all (ld lo (h @ e)) xs = Some vs"
    using x(3) by (rule load_all_cong) (rule stable_append [OF assms])
  with x at_Some_bound(2) [OF x(2)] show "load_array ld lo (h @ e) r = Some vs"
    by (simp add: load_array_def)
next
  fix lo lo' :: nat and h r vs
  assume a: "load_array ld lo h r = Some vs \<and> lo' \<le> lo"
  then obtain xs where x: "lo \<le> r" "array_at h r = Some xs" "load_all (ld lo h) xs = Some vs"
    by (auto simp: load_array_def split: if_splits Option.bind_splits)
  from a have le: "lo' \<le> lo"
    by simp
  have "load_all (ld lo' h) xs = Some vs"
    using x(3)
  proof (rule load_all_cong)
    fix y v
    assume "ld lo h y = Some v"
    then show "ld lo' h y = Some v"
      using le by (rule stable_lower [OF assms])
  qed
  with x a show "load_array ld lo' h r = Some vs"
    by (simp add: load_array_def)
qed

lemma stable_City: "stable load_City"
  unfolding stable_def
proof (intro conjI allI impI)
  fix lo h r v e
  assume "load_City lo h r = Some v"
  then obtain nm la lg n where x: "lo \<le> r" "city_at h r = Some (nm, la, lg)"
      "load_names lo h nm = Some n"
      "v = \<lparr>city_name = n, city_latitude = la, city_longitude = lg\<rparr>"
    by (auto simp: load_City_def split: if_splits Option.bind_splits)
  with at_Some_bound(3) [OF x(2)] stable_append [OF stable_names x(3), of e]
  show "load_City lo (h @ e) r = Some v"
    by (simp add: load_City_def)
next
  fix lo lo' :: nat and h r v
  assume a: "load_City lo h r = Some v \<and> lo' \<le> lo"
  then obtain nm la lg n where x: "lo \<le> r" "city_at h r = Some (nm, la, lg)"
      "load_names lo h nm = Some n"
      "v = \<lparr>city_name = n, city_latitude = la, city_longitude = lg\<rparr>"
    by (auto simp: load_City_def split: if_splits Option.bind_splits)
  with a stable_lower [OF stable_names x(3), of lo']
  show "load_City lo' h r = Some v"
    by (simp add: load_City_def)
qed

lemma stable_Region: "stable load_Region"
  unfolding stable_def
proof (intro conjI allI impI)
  fix lo h r v e
  assume "load_Region lo h r = Some v"
  then obtain c nm cs n cities where x: "lo \<le> r" "region_at h r = Some (c, nm, cs)"
      "load_names lo h nm = Some n" "load_array load_City lo h cs = Some cities"
      "v = \<lparr>region_code = c, region_name = n, region_cities = cities\<rparr>"
    by (auto simp: load_Region_def split: if_splits Option.bind_splits)
  with at_extend(4) [OF x(2), of e] stable_append [OF stable_names x(3), of e]
    stable_append [OF stable_array [OF stable_City] x(4), of e]
  show "load_Region lo (h @ e) r = Some v"
    by (simp add: load_Region_def)
next
  fix lo lo' :: nat and h r v
  assume a: "load_Region lo h r = Some v \<and> lo' \<le> lo"
  then obtain c nm cs n cities where x: "lo \<le> r" "region_at h r = Some (c, nm, cs)"
      "load_names lo h nm = Some n" "load_array load_City lo h cs = Some cities"
      "v = \<lparr>region_code = c, region_name = n, region_cities = cities\<rparr>"
    by (auto simp: load_Region_def split: if_splits Option.bind_splits)
  with a stable_lower [OF stable_names x(3), of lo']
    stable_lower [OF stable_array [OF stable_City] x(4), of lo']
  show "load_Region lo' h r = Some v"
    by (simp add: load_Region_def)
qed

lemma load_CountryData_append:
  assumes "load_CountryData lo h r = Some v"
  shows "load_CountryData lo (h @ e) r = Some v"
proof -
  from assms obtain c i nm ph cu tz fl rs n regs
    where x: "lo \<le> r" "country_at h r = Some (c, i, nm, ph, cu, tz, fl, rs)"
      "load_names lo h nm = Some n" "load_array load_Region lo h rs = Some regs"
      "v = \<lparr>code = c, iso3 = i, name = n, phone = ph, currency = cu, timezone = tz,
                   flag = fl, regions = regs\<rparr>"
    by (auto simp: load_CountryData_def split: if_splits Option.bind_splits)
  with at_extend(5) [OF x(2), of e] stable_append [OF stable_names x(3), of e]
    stable_append [OF stable_array [OF stable_Region] x(4), of e]
  show ?thesis
    by (simp add: load_CountryData_def)
qed

lemma map_from_refines:
  assumes f: "implements ld g f" and st: "stable ld"
    and src: "array_at h0 src = Some xs"
    and vs: "load_all (ld 0 h0) xs = Some vs"
  shows "k + n = length xs \<Longrightarrow>
         \<exists>ys e'. map_from f src k n (h0 @ e) = Some (ys, h0 @ e @ e') \<and>
                 load_all (ld (length h0) (h0 @ e @ e')) ys = Some (map g (drop k vs))"
proof (induction n arbitrary: k e)
  case 0
  then have "drop k vs = []"
    using load_all_length [OF vs] by simp
  then show ?case
    by simp
next
  case (Suc n)
  then have k: "k < length xs"
    by simp
  have a: "array_at (h0 @ e) src = Some xs"
    using src by (rule at_extend)
  have "ld 0 h0 (xs ! k) = Some (vs ! k)"
    using vs k by (rule load_all_nth)
  then have "ld 0 (h0 @ e) (xs ! k) = Some (vs ! k)"
    by (rule stable_append [OF st])
  with f obtain y e1 where y: "f (xs ! k) (h0 @ e) = Some (y, (h0 @ e) @ e1)"
    and yv: "ld (length (h0 @ e)) ((h0 @ e) @ e1) y = Some (g (vs ! k))"
    unfolding implements_def by blast
  from yv have "ld (length h0) ((h0 @ e) @ e1) y = Some (g (vs ! k))"
    by (rule stable_lower [OF st]) simp
  then have yv': "ld (length h0) (((h0 @ e) @ e1) @ e2) y = Some (g (vs ! k))" for e2
    by (rule stable_append [OF st])
  from Suc.prems have "Suc k + n = length xs"
    by simp
  from Suc.IH [OF this, of "e @ e1"] obtain ys e2
    where ys: "map_from f src (Suc k) n (h0 @ e @ e1) = Some (ys, h0 @ (e @ e1) @ e2)"
      and ysv: "load_all (ld (length h0) (h0 @ (e @ e1) @ e2)) ys = Some (map g (drop (Suc k) vs))"
    by blast
  have d: "drop k vs = vs ! k # drop (Suc k) vs"
    using k load_all_length [OF vs] by (simp add: Cons_nth_drop_Suc)
  have "map_from f src k (Suc n) (h0 @ e) = Some (y # ys, h0 @ e @ (e1 @ e2))"
    using a k y ys by simp
  moreover have "load_all (ld (length h0) (h0 @ e @ (e1 @ e2))) (y # ys) = Some (map g (drop k vs))"
    using yv' [of e2] ysv d by simp
  ultimately show ?case
    by blast
qed

lemma array_map_implements:
  assumes "implements ld g f" and "stable ld"
  shows "implements (load_array ld) (map g) (array_map f)"
  unfolding implements_def
proof (intro allI impI)
  fix h src vs
  assume "load_array ld 0 h src = Some vs"
  then obtain xs where xs: "array_at h src = Some xs" and v: "load_all (ld 0 h) xs = Some vs"
    by (auto simp: load_array_def split: Option.bind_splits)
  from map_from_refines [OF assms xs v, of 0 "length xs" "[]"] obtain ys e
    where m: "map_from f src 0 (length xs) h = Some (ys, h @ e)"
      and l: "load_all (ld (length h) (h @ e)) ys = Some (map g vs)"
    by auto
  have "load_all (ld (length h) ((h @ e) @ [Array ys])) ys = Some (map g vs)"
    using l by (rule load_all_cong) (rule stable_append [OF assms(2)])
  then have "load_array ld (length h) (h @ e @ [Array ys]) (length (h @ e)) = Some (map g vs)"
    using at_new(2) [of "h @ e" ys "[]"] by (simp add: load_array_def)
  moreover have "array_map f src h = Some (length (h @ e), h @ e @ [Array ys])"
    using xs m by (simp add: array_map_def alloc_def)
  ultimately show "\<exists>r' e. array_map f src h = Some (r', h @ e) \<and>
      load_array ld (length h) (h @ e) r' = Some (map g vs)"
    by blast
qed

lemma filterName_heap_implements: "implements load_names (filterName langs) (filterName_heap langs)"
  unfolding implements_def
proof (intro allI impI)
  fix h r n
  assume "load_names 0 h r = Some n"
  then have "names_at h r = Some n"
    by (simp add: load_names_def)
  then have "filterName_heap langs r h = Some (length h, h @ [Names (filterName langs n)])"
    by (rule filterName_heap_exact)
  moreover have "load_names (length h) (h @ [Names (filterName langs n)]) (length h)
      = Some (filterName langs n)"
    by (simp add: load_names_def)
  ultimately show "\<exists>r' e. filterName_heap langs r h = Some (r', h @ e) \<and>
      load_names (length h) (h @ e) r' = Some (filterName langs n)"
    by blast
qed

lemma filterCity_heap_implements: "implements load_City (filterCity config) (filterCity_heap config)"
  unfolding implements_def
proof (intro allI impI)
  fix h r v
  assume "load_City 0 h r = Some v"
  then obtain nm la lg n where x: "city_at h r = Some (nm, la, lg)" "names_at h nm = Some n"
      "v = \<lparr>city_name = n, city_latitude = la, city_longitude = lg\<rparr>"
    by (auto simp: load_City_def load_names_def split: Option.bind_splits)
  define ob where "ob = (if includeCoordinates config \<and> la \<noteq> None \<and> lg \<noteq> None
                then CityObj (length h) la lg else CityObj (length h) None None)"
  have "filterCity_heap config r h =
      Some (Suc (length h), h @ [Names (filterName (languages config) n), ob])"
    unfolding ob_def using x(1,2) by (rule filterCity_heap_exact)
  moreover have "load_City (length h) (h @ [Names (filterName (languages config) n), ob]) (Suc (length h))
      = Some (filterCity config v)"
    using at_new(3) [of "h @ [Names (filterName (languages config) n)]" _ _ _ "[]"]
      at_new(1) [of h _ "[ob]"]
    by (auto simp: load_City_def load_names_def filterCity_def x(3) ob_def)
  ultimately show "\<exists>r' e. filterCity_heap config r h = Some (r', h @ e) \<and>
      load_City (length h) (h @ e) r' = Some (filterCity config v)"
    by blast
qed

lemma filterRegion_heap_implements:
  "implements load_Region (filterRegion config) (filterRegion_heap config)"
  unfolding implements_def
proof (intro allI impI)
  fix h r v
  assume "load_Region 0 h r = Some v"
  then obtain c nm cs n cities where x: "region_at h r = Some (c, nm, cs)"
      "names_at h nm = Some n" "load_array load_City 0 h cs = Some cities"
      "v = \<lparr>region_code = c, region_name = n, region_cities = cities\<rparr>"
    by (auto simp: load_Region_def load_names_def split: Option.bind_splits)
  define h1 where "h1 = h @ [Names (filterName (languages config) n)]"
  have fn: "filterName_heap (languages config) nm h = Some (length h, h1)"
    unfolding h1_def using x(2) by (rule filterName_heap_exact)
  have r1: "region_at h1 r = Some (c, nm, cs)"
    unfolding h1_def using x(1) by (rule at_extend)
  have "load_array load_City 0 h1 cs = Some cities"
    unfolding h1_def using x(3) by (rule stable_append [OF stable_array [OF stable_City]])
  with array_map_implements [OF filterCity_heap_implements stable_City, of config]
  obtain a e where m: "array_map (filterCity_heap config) cs h1 = Some (a, h1 @ e)"
    and l: "load_array load_City (length h1) (h1 @ e) a = Some (map (filterCity config) cities)"
    unfolding implements_def by blast
  define h3 where "h3 = (h1 @ e) @ [RegionObj c (length h) a]"
  have run: "filterRegion_heap config r h = Some (length (h1 @ e), h3)"
    unfolding filterRegion_heap_def h3_def using x(1) fn r1 m by (simp add: alloc_def)
  have h3: "h3 = h @ (Names (filterName (languages config) n) # e @ [RegionObj c (length h) a])"
    by (simp add: h3_def h1_def)
  have "load_array load_City (length h) (h1 @ e) a = Some (map (filterCity config) cities)"
    using l by (rule stable_lower [OF stable_array [OF stable_City]]) (simp add: h1_def)
  then have cities: "load_array load_City (length h) h3 a = Some (map (filterCity config) cities)"
    unfolding h3_def by (rule stable_append [OF stable_array [OF stable_City]])
  have nm': "load_names (length h) h3 (length h) = Some (filterName (languages config) n)"
    unfolding h3 by (simp add: load_names_def)
  have at: "region_at h3 (length (h1 @ e)) = Some (c, length h, a)"
    unfolding h3_def by (rule at_new(4))
  have "load_Region (length h) h3 (length (h1 @ e)) = Some (filterRegion config v)"
    using at nm' cities by (simp add: load_Region_def filterRegion_def x(4) h1_def)
  with run h3 show "\<exists>r' e. filterRegion_heap config r h = Some (r', h @ e) \<and>
      load_Region (length h) (h @ e) r' = Some (filterRegion config v)"
    by metis
qed

lemma filterCountryData_heap_implements:
  "implements load_CountryData (\<lambda>d. filterCountryData d config)
     (\<lambda>data. filterCountryData_heap data config)"
  unfolding implements_def
proof (intro allI impI)
  fix h r v
  assume "load_CountryData 0 h r = Some v"
  then obtain c i nm ph cu tz fl rs n regs
    where x: "country_at h r = Some (c, i, nm, ph, cu, tz, fl, rs)"
      "names_at h nm = Some n" "load_array load_Region 0 h rs = Some regs"
      "v = \<lparr>code = c, iso3 = i, name = n, phone = ph, currency = cu, timezone = tz,
                   flag = fl, regions = regs\<rparr>"
    by (auto simp: load_CountryData_def load_names_def split: Option.bind_splits)
  define h1 where "h1 = h @ [Names (filterName (languages config) n)]"
  have fn: "filterName_heap (languages config) nm h = Some (length h, h1)"
    unfolding h1_def using x(2) by (rule filterName_heap_exact)
  have r1: "country_at h1 r = Some (c, i, nm, ph, cu, tz, fl, rs)"
    unfolding h1_def using x(1) by (rule at_extend)
  have "load_array load_Region 0 h1 rs = Some regs"
    unfolding h1_def using x(3) by (rule stable_append [OF stable_array [OF stable_Region]])
  with array_map_implements [OF filterRegion_heap_implements stable_Region, of config]
  obtain a e where m: "array_map (filterRegion_heap config) rs h1 = Some (a, h1 @ e)"
    and l: "load_array load_Region (length h1) (h1 @ e) a = Some (map (filterRegion config) regs)"
    unfolding implements_def by blast
  define h3 where "h3 = (h1 @ e) @ [CountryObj c i (length h) ph cu tz fl a]"
  have run: "filterCountryData_heap r config h = Some (length (h1 @ e), h3)"
    unfolding filterCountryData_heap_def h3_def using x(1) fn r1 m by (simp add: alloc_def)
  have h3: "h3 = h @ (Names (filterName (languages config) n) # e
                      @ [CountryObj c i (length h) ph cu tz fl a])"
    by (simp add: h3_def h1_def)
  have "load_array load_Region (length h) (h1 @ e) a = Some (map (filterRegion config) regs)"
    using l by (rule stable_lower [OF stable_array [OF stable_Region]]) (simp add: h1_def)
  then have regs: "load_array load_Region (length h) h3 a = Some (map (filterRegion config) regs)"
    unfolding h3_def by (rule stable_append [OF stable_array [OF stable_Region]])
  have nm': "load_names (length h) h3 (length h) = Some (filterName (languages config) n)"
    unfolding h3 by (simp add: load_names_def)
  have at: "country_at h3 (length (h1 @ e)) = Some (c, i, length h, ph, cu, tz, fl, a)"
    unfolding h3_def by (rule at_new(5))
  have "load_CountryData (length h) h3 (length (h1 @ e)) = Some (filterCountryData v config)"
    using at nm' regs by (simp add: load_CountryData_def filterCountryData_alt x(4) h1_def)
  with run h3 show "\<exists>r' e. filterCountryData_heap r config h = Some (r', h @ e) \<and>
      load_CountryData (length h) (h @ e) r' = Some (filterCountryData v config)"
    by metis
qed

lemma smallHeap_load: "load_CountryData 0 smallHeap 7 = Some smallCountry"
  by (simp add: smallHeap_def smallCountry_def load_CountryData_def load_array_def load_Region_def
        load_City_def load_names_def country_at_def region_at_def city_at_def array_at_def names_at_def)

lemma smallHeap_run:
  "filterCountryData_heap 7 (makeConfig [''en''] False) smallHeap =
     Some (15, smallHeap @
       [Names [(''en'', ''Test Country'')], Names [(''en'', ''Test Region'')],
        Names [(''en'', ''Zero City'')], CityObj 10 None None,
        Array [11], RegionObj ''01'' 9 12, Array [13],
        CountryObj ''test'' None 8 ''+0'' ''TST'' ''UTC'' ''flag'' 14])"
  by (simp add: smallHeap_def makeConfig_def filterCountryData_heap_def filterRegion_heap_def
        filterCity_heap_def filterName_heap_def array_map_def alloc_def set_prop_def
        country_at_def region_at_def city_at_def array_at_def names_at_def truthy_prop_def
        numeral_nat nth_append)

section \<open>Claims about the filter\<close>

text \<open>
  Claim C5, as amended. With \<open>includeCoordinates = true\<close>, a city that carries both a
  latitude and a longitude keeps the exact value of both in the projection, zero included:
  presence is tested with \<open>!== undefined\<close>, never by truthiness. A city that lacks either
  coordinate has neither in the projection.
\<close>

theorem zero_coordinates_preserved:
  assumes "includeCoordinates config"
    and "i < length (regions d)"
    and "j < length (region_cities (regions d ! i))"
    and "city = region_cities (regions d ! i) ! j"
    and "view = region_cities (regions (filterCountryData d config) ! i) ! j"
  shows "(city_latitude city = Some la \<and> city_longitude city = Some lo \<longrightarrow>
            city_latitude view = Some la \<and> city_longitude view = Some lo) \<and>
         (city_latitude city = None \<or> city_longitude city = None \<longrightarrow>
            city_latitude view = None \<and> city_longitude view = None)"
proof -
  have "view = filterCity config city"
    using assms by (simp add: filterCountryData_regions filterRegion_def)
  then show ?thesis
    using assms(1) by (auto simp: filterCity_def)
qed

text \<open>
  The theorem at the city of the tests that lies on the equator: latitude \<open>0\<close> and
  longitude \<open>46.6753\<close> are both kept.
\<close>

theorem zero_coordinates_preserved_witness:
  "includeCoordinates (makeConfig [''en''] True) \<and>
   (0::nat) < length (regions zeroCoordsCountry) \<and>
   (1::nat) < length (region_cities (regions zeroCoordsCountry ! 0)) \<and>
   city_latitude (region_cities (regions zeroCoordsCountry ! 0) ! 1) = Some 0 \<and>
   city_longitude (region_cities (regions zeroCoordsCountry ! 0) ! 1) = Some 46.6753 \<and>
   city_latitude
     (region_cities (regions (filterCountryData zeroCoordsCountry (makeConfig [''en''] True)) ! 0) ! 1)
     = Some 0 \<and>
   city_longitude
     (region_cities (regions (filterCountryData zeroCoordsCountry (makeConfig [''en''] True)) ! 0) ! 1)
     = Some 46.6753"
proof -
  have c: "includeCoordinates (makeConfig [''en''] True)"
    by (simp add: makeConfig_def)
  have i: "(0::nat) < length (regions zeroCoordsCountry)"
    by (simp add: zeroCoordsCountry_def)
  have j: "(1::nat) < length (region_cities (regions zeroCoordsCountry ! 0))"
    by (simp add: zeroCoordsCountry_def)
  have la: "city_latitude (region_cities (regions zeroCoordsCountry ! 0) ! 1) = Some 0"
    and lo: "city_longitude (region_cities (regions zeroCoordsCountry ! 0) ! 1) = Some 46.6753"
    by (simp_all add: zeroCoordsCountry_def)
  from zero_coordinates_preserved [OF c i j refl refl, where la = 0 and lo = "46.6753"] la lo c i j
  show ?thesis by simp
qed

text \<open>
  Claim C5 as stated fails: a city with latitude \<open>0\<close> and no longitude loses its latitude,
  although \<open>includeCoordinates\<close> is true.
\<close>

theorem single_coordinate_counterexample:
  "includeCoordinates (makeConfig [''en''] True) \<and>
   city_latitude (region_cities (regions zeroCoordsCountry ! 0) ! 2) = Some 0 \<and>
   city_latitude
     (region_cities (regions (filterCountryData zeroCoordsCountry (makeConfig [''en''] True)) ! 0) ! 2)
     = None"
  by (simp add: zeroCoordsCountry_def makeConfig_def filterCountryData_def)

text \<open>
  Claim C6, as amended. Whatever \<open>config.languages\<close> holds, every name map of the
  projection (the country's, each region's, each city's) has key \<open>en\<close> with the original
  value whenever the corresponding name map of the dataset has \<open>en\<close> with a non-empty
  value. The projection has the regions and cities of the dataset, in the same order.
\<close>

theorem english_fallback:
  assumes "v \<noteq> []"
  shows "(map_of (name d) ''en'' = Some v \<longrightarrow>
            map_of (name (filterCountryData d config)) ''en'' = Some v) \<and>
         length (regions (filterCountryData d config)) = length (regions d) \<and>
         (\<forall>i < length (regions d).
            (map_of (region_name (regions d ! i)) ''en'' = Some v \<longrightarrow>
               map_of (region_name (regions (filterCountryData d config) ! i)) ''en'' = Some v) \<and>
            length (region_cities (regions (filterCountryData d config) ! i)) =
              length (region_cities (regions d ! i)) \<and>
            (\<forall>j < length (region_cities (regions d ! i)).
               map_of (city_name (region_cities (regions d ! i) ! j)) ''en'' = Some v \<longrightarrow>
               map_of (city_name (region_cities (regions (filterCountryData d config) ! i) ! j)) ''en''
                 = Some v))"
  using assms
  by (simp add: filterCountryData_regions filterCountryData_name filterRegion_def filterCity_def
        filterName_en)

text \<open>
  The theorem at the sample country with \<open>languages = ["fr"]\<close>: the country and its first
  city keep their English names.
\<close>

theorem english_fallback_witness:
  "''Saudi Arabia'' \<noteq> [] \<and> ''Riyadh'' \<noteq> [] \<and>
   ''en'' \<notin> set (languages (makeConfig [''fr''] False)) \<and>
   map_of (name sampleCountry) ''en'' = Some ''Saudi Arabia'' \<and>
   map_of (name (filterCountryData sampleCountry (makeConfig [''fr''] False))) ''en''
     = Some ''Saudi Arabia'' \<and>
   map_of (city_name (region_cities (regions sampleCountry ! 0) ! 0)) ''en'' = Some ''Riyadh'' \<and>
   map_of (city_name
      (region_cities (regions (filterCountryData sampleCountry (makeConfig [''fr''] False)) ! 0) ! 0))
      ''en'' = Some ''Riyadh''"
proof -
  have n1: "''Saudi Arabia'' \<noteq> []" and n2: "''Riyadh'' \<noteq> []"
    by simp_all
  have h1: "map_of (name sampleCountry) ''en'' = Some ''Saudi Arabia''"
    and h2: "map_of (city_name (region_cities (regions sampleCountry ! 0) ! 0)) ''en'' = Some ''Riyadh''"
    and i: "(0::nat) < length (regions sampleCountry)"
    and j: "(0::nat) < length (region_cities (regions sampleCountry ! 0))"
    by (simp_all add: sampleCountry_def)
  have l: "''en'' \<notin> set (languages (makeConfig [''fr''] False))"
    by (simp add: makeConfig_def)
  from english_fallback [OF n1, of sampleCountry "makeConfig [''fr''] False"] h1
  have r1: "map_of (name (filterCountryData sampleCountry (makeConfig [''fr''] False))) ''en''
     = Some ''Saudi Arabia''"
    by blast
  from english_fallback [OF n2, of sampleCountry "makeConfig [''fr''] False"] h2 i j
  have r2: "map_of (city_name
      (region_cities (regions (filterCountryData sampleCountry (makeConfig [''fr''] False)) ! 0) ! 0))
      ''en'' = Some ''Riyadh''"
    by blast
  from n1 n2 l h1 h2 r1 r2 show ?thesis by blast
qed

text \<open>
  Claim C6 as stated fails: an English name that is the empty string is falsy, so the
  projection has no key \<open>en\<close>, even with \<open>en\<close> among the languages.
\<close>

theorem empty_english_name_counterexample:
  "map_of (name emptyEnglishCountry) ''en'' = Some '''' \<and>
   map_of (name (filterCountryData emptyEnglishCountry (makeConfig [''en'', ''fr''] True))) ''en'' = None"
  by (simp add: emptyEnglishCountry_def makeConfig_def filterCountryData_def filterName_def
        truthy_prop_def)

text \<open>
  Claim C7. Projection is idempotent: filtering a projection again with the same config
  changes nothing. The code does not satisfy this. \<open>filterCountryData\<close> applies
  \<open>filterName\<close> to \<open>data.name\<close>, and \<open>filterName\<close> reads \<open>name[lang]\<close> without
  asking whether the property is the map's own. For the language list \<open>["constructor"]\<close>
  and the name \<open>{constructor: "", en: "A"}\<close> the first pass skips the own, empty
  \<open>constructor\<close> and returns \<open>{en: "A"}\<close>; on that result the second pass finds the
  inherited \<open>Object.prototype.constructor\<close>, which is truthy, and returns a map with a
  \<open>constructor\<close> entry holding a function.
\<close>

theorem inherited_property_breaks_idempotence:
  "filterName_proto [''constructor''] (own_strings [(''constructor'', ''''), (''en'', ''A'')])
     = [(''en'', JString ''A'')] \<and>
   filterName_proto [''constructor'']
     (filterName_proto [''constructor''] (own_strings [(''constructor'', ''''), (''en'', ''A'')]))
     = [(''constructor'', Inherited ''constructor''), (''en'', JString ''A'')]"
  by (simp add: filterName_proto_def own_strings_def get_prop_def truthy_value_def set_own_def
        prototypeMembers_def)

section \<open>Claims about the registry calls\<close>

text \<open>
  Claim C1. Against a remote registry, when no fresh cache entry exists and the fetched
  payload fails its schema, \<open>fetchRegistry\<close> and \<open>fetchCountry\<close> return \<open>null\<close>, print
  one warning that names the failure and leave every file of the cache as it was. And every
  call of either function keeps the invariant of the cache: if every cached payload passes
  its schema before the call, every cached payload passes its schema after it.
\<close>

theorem validate_before_cache:
  assumes "isRemoteRegistry (REGISTRY_BASE env)"
  shows "(\<not> truthy (readCache env w ''registry-index'' (60 * 60 * 1000)) \<and>
          fetch env (REGISTRY_BASE env @ ''/index.json'') = Inr body \<and>
          RegistryIndexSchema body = None \<longrightarrow>
            fst (fetchRegistry env w) = Inr None \<and>
            warnings (snd (fetchRegistry env w)) = warnings w @ [RegistryIndexInvalid] \<and>
            cacheDir (snd (fetchRegistry env w)) = cacheDir w) \<and>
         (\<not> truthy (readCache env w (''country-'' @ cc) (24 * 60 * 60 * 1000)) \<and>
          fetch env (REGISTRY_BASE env @ ''/countries/'' @ cc @ ''.json'') = Inr body \<and>
          CountryDataSchema body = None \<longrightarrow>
            fst (fetchCountry env w cc config) = Inr None \<and>
            warnings (snd (fetchCountry env w cc config)) = warnings w @ [CountryDataInvalid cc] \<and>
            cacheDir (snd (fetchCountry env w cc config)) = cacheDir w) \<and>
         (cacheValidated w \<longrightarrow>
            cacheValidated (snd (fetchRegistry env w)) \<and>
            cacheValidated (snd (fetchCountry env w cc config)))"
proof (intro conjI impI)
  assume h: "\<not> truthy (readCache env w ''registry-index'' (60 * 60 * 1000)) \<and>
          fetch env (REGISTRY_BASE env @ ''/index.json'') = Inr body \<and>
          RegistryIndexSchema body = None"
  then have f: "fetchRegistry env w =
      (Inr None, warn RegistryIndexInvalid
         (w\<lparr>requests := requests w @ [REGISTRY_BASE env @ ''/index.json'']\<rparr>))"
    using fetchRegistry_fetched [OF assms, of w body] by (simp add: Let_def)
  show "fst (fetchRegistry env w) = Inr None"
    and "warnings (snd (fetchRegistry env w)) = warnings w @ [RegistryIndexInvalid]"
    and "cacheDir (snd (fetchRegistry env w)) = cacheDir w"
    by (simp_all add: f)
next
  assume h: "\<not> truthy (readCache env w (''country-'' @ cc) (24 * 60 * 60 * 1000)) \<and>
          fetch env (REGISTRY_BASE env @ ''/countries/'' @ cc @ ''.json'') = Inr body \<and>
          CountryDataSchema body = None"
  then have f: "fetchCountry env w cc config =
      (Inr None, warn (CountryDataInvalid cc)
         (w\<lparr>requests := requests w @ [REGISTRY_BASE env @ ''/countries/'' @ cc @ ''.json'']\<rparr>))"
    using fetchCountry_fetched [OF assms, of w cc body config] by (simp add: Let_def)
  show "fst (fetchCountry env w cc config) = Inr None"
    and "warnings (snd (fetchCountry env w cc config)) = warnings w @ [CountryDataInvalid cc]"
    and "cacheDir (snd (fetchCountry env w cc config)) = cacheDir w"
    by (simp_all add: f)
next
  assume "cacheValidated w"
  then show "cacheValidated (snd (fetchRegistry env w))"
    and "cacheValidated (snd (fetchCountry env w cc config))"
    by (rule fetchRegistry_cacheValidated, rule fetchCountry_cacheValidated)
qed

text \<open>
  The theorem at a two-day-old entry for \<open>sa\<close> and a registry that serves \<open>{}\<close>: the
  call returns \<open>null\<close> with one warning and the old entry stays.
\<close>

theorem validate_before_cache_witness:
  "isRemoteRegistry (REGISTRY_BASE (remoteEnv (serving (JObj [])) 172800000)) \<and>
   \<not> truthy (readCache (remoteEnv (serving (JObj [])) 172800000)
        (cachedWorld ''country-sa'' (json_CountryData sampleCountry) 0)
        (''country-'' @ ''sa'') (24 * 60 * 60 * 1000)) \<and>
   CountryDataSchema (JObj []) = None \<and>
   cacheValidated (cachedWorld ''country-sa'' (json_CountryData sampleCountry) 0) \<and>
   fst (fetchCountry (remoteEnv (serving (JObj [])) 172800000)
          (cachedWorld ''country-sa'' (json_CountryData sampleCountry) 0) ''sa''
          (makeConfig [''en''] True)) = Inr None \<and>
   warnings (snd (fetchCountry (remoteEnv (serving (JObj [])) 172800000)
          (cachedWorld ''country-sa'' (json_CountryData sampleCountry) 0) ''sa''
          (makeConfig [''en''] True))) = [CountryDataInvalid ''sa''] \<and>
   cacheDir (snd (fetchCountry (remoteEnv (serving (JObj [])) 172800000)
          (cachedWorld ''country-sa'' (json_CountryData sampleCountry) 0) ''sa''
          (makeConfig [''en''] True))) ''country-sa''
     = Some \<lparr>content = json_CountryData sampleCountry, mtimeMs = 0\<rparr> \<and>
   cacheValidated (snd (fetchCountry (remoteEnv (serving (JObj [])) 172800000)
          (cachedWorld ''country-sa'' (json_CountryData sampleCountry) 0) ''sa''
          (makeConfig [''en''] True)))"
proof -
  define env where "env = remoteEnv (serving (JObj [])) 172800000"
  define w where "w = cachedWorld ''country-sa'' (json_CountryData sampleCountry) 0"
  have r: "isRemoteRegistry (REGISTRY_BASE env)"
    by (simp add: env_def)
  have stale: "\<not> truthy (readCache env w (''country-'' @ ''sa'') (24 * 60 * 60 * 1000))"
    by (simp add: env_def w_def readCache_def)
  have body: "fetch env (REGISTRY_BASE env @ ''/countries/'' @ ''sa'' @ ''.json'') = Inr (JObj [])"
    by (simp add: env_def serving_def)
  have bad: "CountryDataSchema (JObj []) = None"
    by (simp add: CountryDataSchema_def z_required_def)
  have v: "cacheValidated w"
    unfolding w_def using cacheValidated_country [of "''sa''" sampleCountry 0] by simp
  note t = validate_before_cache [OF r, of w "JObj []" "''sa''" "makeConfig [''en''] True"]
  from t stale body bad
  have 1: "fst (fetchCountry env w ''sa'' (makeConfig [''en''] True)) = Inr None"
    and 2: "warnings (snd (fetchCountry env w ''sa'' (makeConfig [''en''] True)))
              = warnings w @ [CountryDataInvalid ''sa'']"
    and 3: "cacheDir (snd (fetchCountry env w ''sa'' (makeConfig [''en''] True))) = cacheDir w"
    by blast+
  from t v have 4: "cacheValidated (snd (fetchCountry env w ''sa'' (makeConfig [''en''] True)))"
    by blast
  have 5: "cacheDir w ''country-sa'' = Some \<lparr>content = json_CountryData sampleCountry, mtimeMs = 0\<rparr>"
    and 6: "warnings w = []"
    by (simp_all add: w_def)
  from r stale bad v 1 2 3 4 5 6 show ?thesis
    unfolding env_def w_def by simp
qed

text \<open>
  Claim C2, as amended. Against a remote registry, when no fresh cache entry exists and the
  fetch fails: (a) if the cache has an entry of any age for the key and the payload of the
  entry passes the schema, as every payload that the calls write does, the call prints
  exactly one warning and returns the data of that entry, filtered with the caller's config
  for a country; (b) if the cache
  holds no entry for the key, the call rejects with the error of the fetch, prints no warning
  and leaves the cache as it was.
\<close>

theorem network_failure_fallback:
  assumes "isRemoteRegistry (REGISTRY_BASE env)"
  shows "(\<not> truthy (readCache env w ''registry-index'' (60 * 60 * 1000)) \<and>
          fetch env (REGISTRY_BASE env @ ''/index.json'') = Inl e \<longrightarrow>
            (\<forall>entry idx. cacheDir w ''registry-index'' = Some entry \<and>
                 RegistryIndexSchema (content entry) = Some idx \<longrightarrow>
                 fst (fetchRegistry env w) = Inr (Some idx) \<and>
                 warnings (snd (fetchRegistry env w)) = warnings w @ [NetworkUnavailable]) \<and>
            (cacheDir w ''registry-index'' = None \<longrightarrow>
                 fst (fetchRegistry env w) = Inl e \<and>
                 warnings (snd (fetchRegistry env w)) = warnings w \<and>
                 cacheDir (snd (fetchRegistry env w)) = cacheDir w)) \<and>
         (\<not> truthy (readCache env w (''country-'' @ cc) (24 * 60 * 60 * 1000)) \<and>
          fetch env (REGISTRY_BASE env @ ''/countries/'' @ cc @ ''.json'') = Inl e \<longrightarrow>
            (\<forall>entry d. cacheDir w (''country-'' @ cc) = Some entry \<and>
                 CountryDataSchema (content entry) = Some d \<longrightarrow>
                 fst (fetchCountry env w cc config) = Inr (Some (filterCountryData d config)) \<and>
                 warnings (snd (fetchCountry env w cc config)) = warnings w @ [NetworkUnavailable]) \<and>
            (cacheDir w (''country-'' @ cc) = None \<longrightarrow>
                 fst (fetchCountry env w cc config) = Inl e \<and>
                 warnings (snd (fetchCountry env w cc config)) = warnings w \<and>
                 cacheDir (snd (fetchCountry env w cc config)) = cacheDir w))"
proof (intro conjI impI allI)
  fix entry idx
  assume h: "\<not> truthy (readCache env w ''registry-index'' (60 * 60 * 1000)) \<and>
          fetch env (REGISTRY_BASE env @ ''/index.json'') = Inl e"
    and c: "cacheDir w ''registry-index'' = Some entry \<and>
          RegistryIndexSchema (content entry) = Some idx"
  from c have s: "readStaleCache w ''registry-index'' = content entry"
    by (simp add: stale_present)
  from c have t: "truthy (content entry)"
    by (simp add: RegistryIndex_truthy)
  have f: "fetchRegistry env w =
      (Inr (Some idx),
       writeCache env (warn NetworkUnavailable
           (w\<lparr>requests := requests w @ [REGISTRY_BASE env @ ''/index.json'']\<rparr>))
         ''registry-index'' (json_RegistryIndex idx))"
    using fetchRegistry_failed [OF assms, of w e] h c s t by (simp add: Let_def)
  show "fst (fetchRegistry env w) = Inr (Some idx)"
    and "warnings (snd (fetchRegistry env w)) = warnings w @ [NetworkUnavailable]"
    by (simp_all add: f)
next
  assume h: "\<not> truthy (readCache env w ''registry-index'' (60 * 60 * 1000)) \<and>
          fetch env (REGISTRY_BASE env @ ''/index.json'') = Inl e"
    and c: "cacheDir w ''registry-index'' = None"
  have f: "fetchRegistry env w =
      (Inl e, w\<lparr>requests := requests w @ [REGISTRY_BASE env @ ''/index.json'']\<rparr>)"
    using fetchRegistry_failed [OF assms, of w e] h stale_absent [OF c] by (simp add: Let_def)
  show "fst (fetchRegistry env w) = Inl e"
    and "warnings (snd (fetchRegistry env w)) = warnings w"
    and "cacheDir (snd (fetchRegistry env w)) = cacheDir w"
    by (simp_all add: f)
next
  fix entry d
  assume h: "\<not> truthy (readCache env w (''country-'' @ cc) (24 * 60 * 60 * 1000)) \<and>
          fetch env (REGISTRY_BASE env @ ''/countries/'' @ cc @ ''.json'') = Inl e"
    and c: "cacheDir w (''country-'' @ cc) = Some entry \<and>
          CountryDataSchema (content entry) = Some d"
  from c have s: "readStaleCache w (''country-'' @ cc) = content entry"
    by (simp add: stale_present)
  from c have t: "truthy (content entry)"
    by (simp add: CountryData_truthy)
  have f: "fetchCountry env w cc config =
      (Inr (Some (filterCountryData d config)),
       writeCache env (warn NetworkUnavailable
           (w\<lparr>requests := requests w @ [REGISTRY_BASE env @ ''/countries/'' @ cc @ ''.json'']\<rparr>))
         (''country-'' @ cc) (json_CountryData d))"
    using fetchCountry_failed [OF assms, of w cc e config] h c s t by (simp add: Let_def)
  show "fst (fetchCountry env w cc config) = Inr (Some (filterCountryData d config))"
    and "warnings (snd (fetchCountry env w cc config)) = warnings w @ [NetworkUnavailable]"
    by (simp_all add: f)
next
  assume h: "\<not> truthy (readCache env w (''country-'' @ cc) (24 * 60 * 60 * 1000)) \<and>
          fetch env (REGISTRY_BASE env @ ''/countries/'' @ cc @ ''.json'') = Inl e"
    and c: "cacheDir w (''country-'' @ cc) = None"
  have f: "fetchCountry env w cc config =
      (Inl e, w\<lparr>requests := requests w @ [REGISTRY_BASE env @ ''/countries/'' @ cc @ ''.json'']\<rparr>)"
    using fetchCountry_failed [OF assms, of w cc e config] h stale_absent [OF c]
    by (simp add: Let_def)
  show "fst (fetchCountry env w cc config) = Inl e"
    and "warnings (snd (fetchCountry env w cc config)) = warnings w"
    and "cacheDir (snd (fetchCountry env w cc config)) = cacheDir w"
    by (simp_all add: f)
qed

text \<open>
  The theorem at the scenario of the specification: the index entry is two hours old, the
  window is one hour and the network is unreachable; the stale index is returned with
  exactly one warning. With an empty cache the error of the fetch comes back.
\<close>

theorem network_failure_fallback_witness:
  "isRemoteRegistry (REGISTRY_BASE (remoteEnv unreachable 7200000)) \<and>
   RegistryIndexSchema (json_RegistryIndex sampleIndex) = Some sampleIndex \<and>
   \<not> truthy (readCache (remoteEnv unreachable 7200000)
        (cachedWorld ''registry-index'' (json_RegistryIndex sampleIndex) 0)
        ''registry-index'' (60 * 60 * 1000)) \<and>
   fetch (remoteEnv unreachable 7200000)
     (REGISTRY_BASE (remoteEnv unreachable 7200000) @ ''/index.json'') = Inl (Error ''fetch failed'') \<and>
   fst (fetchRegistry (remoteEnv unreachable 7200000)
          (cachedWorld ''registry-index'' (json_RegistryIndex sampleIndex) 0)) = Inr (Some sampleIndex) \<and>
   warnings (snd (fetchRegistry (remoteEnv unreachable 7200000)
          (cachedWorld ''registry-index'' (json_RegistryIndex sampleIndex) 0))) = [NetworkUnavailable] \<and>
   cacheDir emptyWorld (''country-'' @ ''sa'') = None \<and>
   fst (fetchCountry (remoteEnv unreachable 7200000) emptyWorld ''sa'' (makeConfig [''en''] True))
     = Inl (Error ''fetch failed'')"
proof -
  define env where "env = remoteEnv unreachable 7200000"
  define w where "w = cachedWorld ''registry-index'' (json_RegistryIndex sampleIndex) 0"
  have r: "isRemoteRegistry (REGISTRY_BASE env)"
    by (simp add: env_def)
  have old: "\<not> truthy (readCache env w ''registry-index'' (60 * 60 * 1000))"
    by (simp add: env_def w_def readCache_def)
  have down: "fetch env u = Inl (Error ''fetch failed'')" for u
    by (simp add: env_def unreachable_def)
  have entry: "cacheDir w ''registry-index''
      = Some \<lparr>content = json_RegistryIndex sampleIndex, mtimeMs = 0\<rparr>"
    and none: "warnings w = []"
    by (simp_all add: w_def)
  have valid: "RegistryIndexSchema (content \<lparr>content = json_RegistryIndex sampleIndex, mtimeMs = 0\<rparr>)
      = Some sampleIndex"
    by (simp add: RegistryIndex_roundtrip)
  from network_failure_fallback [OF r, where w = w and e = "Error ''fetch failed''"] old down entry valid
  have 1: "fst (fetchRegistry env w) = Inr (Some sampleIndex)"
    and 2: "warnings (snd (fetchRegistry env w)) = warnings w @ [NetworkUnavailable]"
    by blast+
  have miss: "cacheDir emptyWorld (''country-'' @ ''sa'') = None"
    by (simp add: emptyWorld_def)
  have nofresh: "\<not> truthy (readCache env emptyWorld (''country-'' @ ''sa'') (24 * 60 * 60 * 1000))"
    by (simp add: emptyWorld_def readCache_def)
  from network_failure_fallback [OF r, where w = emptyWorld and cc = "''sa''"
      and e = "Error ''fetch failed''" and config = "makeConfig [''en''] True"]
    nofresh down [of "REGISTRY_BASE env @ ''/countries/'' @ ''sa'' @ ''.json''"] miss
  have 3: "fst (fetchCountry env emptyWorld ''sa'' (makeConfig [''en''] True))
      = Inl (Error ''fetch failed'')"
    by blast
  from r valid old down [of "REGISTRY_BASE env @ ''/index.json''"] 1 2 none miss 3 show ?thesis
    unfolding env_def w_def by simp
qed

text \<open>
  Claim C2 as stated fails: with a stale index entry that holds \<open>{}\<close> and the network
  unreachable, the call falls back to the entry, validates it and returns \<open>null\<close> after
  two warnings.
\<close>

theorem invalid_stale_entry_counterexample:
  "\<not> truthy (readCache (remoteEnv unreachable 7200000) (cachedWorld ''registry-index'' (JObj []) 0)
        ''registry-index'' (60 * 60 * 1000)) \<and>
   fetch (remoteEnv unreachable 7200000)
     (REGISTRY_BASE (remoteEnv unreachable 7200000) @ ''/index.json'') = Inl (Error ''fetch failed'') \<and>
   cacheDir (cachedWorld ''registry-index'' (JObj []) 0) ''registry-index''
     = Some \<lparr>content = JObj [], mtimeMs = 0\<rparr> \<and>
   fst (fetchRegistry (remoteEnv unreachable 7200000) (cachedWorld ''registry-index'' (JObj []) 0))
     = Inr None \<and>
   warnings (snd (fetchRegistry (remoteEnv unreachable 7200000)
                    (cachedWorld ''registry-index'' (JObj []) 0)))
     = [NetworkUnavailable, RegistryIndexInvalid]"
  by (simp add: fetchRegistry_def fetchJson_def readCache_def readStaleCache_def isAbsolute_def
        remoteEnv_def cachedWorld_def unreachable_def isRemoteRegistry_def warn_def
        RegistryIndexSchema_def z_required_def Let_def)

text \<open>
  Claim C3, as amended. A cache hit is a fresh entry, or a stale entry used after a failed
  fetch, whose payload is a truthy JavaScript value, as every object is. On a hit the cached
  payload goes through the same schema validation as a fetched payload. When it passes, the
  validated data is the result and is written back to the cache. When it fails, the call
  prints the validation warning, after the warning about cached data on the fallback path,
  and returns \<open>null\<close>. A fresh hit makes no network request. An entry whose payload is
  falsy (\<open>null\<close>, \<open>false\<close>, \<open>0\<close> or the empty string) is never a hit: the network is
  asked, and a failed fetch is rejected with its error.
\<close>

theorem cache_hit_is_validated:
  assumes "isRemoteRegistry (REGISTRY_BASE env)"
  shows "(cacheDir w ''registry-index'' = Some entry \<and> truthy (content entry) \<and>
          now env - mtimeMs entry < 60 * 60 * 1000 \<longrightarrow>
            fetchRegistry env w =
              (case RegistryIndexSchema (content entry) of
                 None \<Rightarrow> (Inr None, warn RegistryIndexInvalid w)
               | Some idx \<Rightarrow>
                   (Inr (Some idx), writeCache env w ''registry-index'' (json_RegistryIndex idx)))) \<and>
         (cacheDir w ''registry-index'' = Some entry \<and> truthy (content entry) \<and>
          \<not> now env - mtimeMs entry < 60 * 60 * 1000 \<and>
          fetch env (REGISTRY_BASE env @ ''/index.json'') = Inl e \<longrightarrow>
            fetchRegistry env w =
              (case RegistryIndexSchema (content entry) of
                 None \<Rightarrow>
                   (Inr None,
                    warn RegistryIndexInvalid (warn NetworkUnavailable
                      (w\<lparr>requests := requests w @ [REGISTRY_BASE env @ ''/index.json'']\<rparr>)))
               | Some idx \<Rightarrow>
                   (Inr (Some idx),
                    writeCache env (warn NetworkUnavailable
                        (w\<lparr>requests := requests w @ [REGISTRY_BASE env @ ''/index.json'']\<rparr>))
                      ''registry-index'' (json_RegistryIndex idx)))) \<and>
         (cacheDir w ''registry-index'' = Some entry \<and> \<not> truthy (content entry) \<longrightarrow>
            requests (snd (fetchRegistry env w))
              = requests w @ [REGISTRY_BASE env @ ''/index.json''] \<and>
            (fetch env (REGISTRY_BASE env @ ''/index.json'') = Inl e \<longrightarrow>
               fst (fetchRegistry env w) = Inl e)) \<and>
         (cacheDir w (''country-'' @ cc) = Some entry \<and> truthy (content entry) \<and>
          now env - mtimeMs entry < 24 * 60 * 60 * 1000 \<longrightarrow>
            fetchCountry env w cc config =
              (case CountryDataSchema (content entry) of
                 None \<Rightarrow> (Inr None, warn (CountryDataInvalid cc) w)
               | Some d \<Rightarrow>
                   (Inr (Some (filterCountryData d config)),
                    writeCache env w (''country-'' @ cc) (json_CountryData d)))) \<and>
         (cacheDir w (''country-'' @ cc) = Some entry \<and> truthy (content entry) \<and>
          \<not> now env - mtimeMs entry < 24 * 60 * 60 * 1000 \<and>
          fetch env (REGISTRY_BASE env @ ''/countries/'' @ cc @ ''.json'') = Inl e \<longrightarrow>
            fetchCountry env w cc config =
              (case CountryDataSchema (content entry) of
                 None \<Rightarrow>
                   (Inr None,
                    warn (CountryDataInvalid cc) (warn NetworkUnavailable
                      (w\<lparr>requests := requests w
                           @ [REGISTRY_BASE env @ ''/countries/'' @ cc @ ''.json'']\<rparr>)))
               | Some d \<Rightarrow>
                   (Inr (Some (filterCountryData d config)),
                    writeCache env (warn NetworkUnavailable
                        (w\<lparr>requests := requests w
                             @ [REGISTRY_BASE env @ ''/countries/'' @ cc @ ''.json'']\<rparr>))
                      (''country-'' @ cc) (json_CountryData d)))) \<and>
         (cacheDir w (''country-'' @ cc) = Some entry \<and> \<not> truthy (content entry) \<longrightarrow>
            requests (snd (fetchCountry env w cc config))
              = requests w @ [REGISTRY_BASE env @ ''/countries/'' @ cc @ ''.json''] \<and>
            (fetch env (REGISTRY_BASE env @ ''/countries/'' @ cc @ ''.json'') = Inl e \<longrightarrow>
               fst (fetchCountry env w cc config) = Inl e))"
proof (intro conjI impI)
  assume h: "cacheDir w ''registry-index'' = Some entry \<and> truthy (content entry) \<and>
          now env - mtimeMs entry < 60 * 60 * 1000"
  then have "cacheDir w ''registry-index'' = Some entry" and "now env - mtimeMs entry < 60 * 60 * 1000"
    by blast+
  then have c: "readCache env w ''registry-index'' (60 * 60 * 1000) = content entry"
    by (rule readCache_fresh)
  with h have t: "truthy (readCache env w ''registry-index'' (60 * 60 * 1000))"
    by simp
  show "fetchRegistry env w =
      (case RegistryIndexSchema (content entry) of
         None \<Rightarrow> (Inr None, warn RegistryIndexInvalid w)
       | Some idx \<Rightarrow>
           (Inr (Some idx), writeCache env w ''registry-index'' (json_RegistryIndex idx)))"
    using fetchRegistry_hit [OF assms t] unfolding c .
next
  assume h: "cacheDir w ''registry-index'' = Some entry \<and> truthy (content entry) \<and>
          \<not> now env - mtimeMs entry < 60 * 60 * 1000 \<and>
          fetch env (REGISTRY_BASE env @ ''/index.json'') = Inl e"
  then have "cacheDir w ''registry-index'' = Some entry" and "\<not> now env - mtimeMs entry < 60 * 60 * 1000"
    by blast+
  then have "readCache env w ''registry-index'' (60 * 60 * 1000) = JNull"
    by (rule readCache_old)
  then have m: "\<not> truthy (readCache env w ''registry-index'' (60 * 60 * 1000))"
    by simp
  from h have s: "readStaleCache w ''registry-index'' = content entry"
    by (simp add: stale_present)
  from h have f: "fetch env (REGISTRY_BASE env @ ''/index.json'') = Inl e"
    by simp
  show "fetchRegistry env w =
      (case RegistryIndexSchema (content entry) of
         None \<Rightarrow>
           (Inr None,
            warn RegistryIndexInvalid (warn NetworkUnavailable
              (w\<lparr>requests := requests w @ [REGISTRY_BASE env @ ''/index.json'']\<rparr>)))
       | Some idx \<Rightarrow>
           (Inr (Some idx),
            writeCache env (warn NetworkUnavailable
                (w\<lparr>requests := requests w @ [REGISTRY_BASE env @ ''/index.json'']\<rparr>))
              ''registry-index'' (json_RegistryIndex idx)))"
    using fetchRegistry_failed [OF assms m f] h unfolding s
    by (simp add: Let_def split: option.splits)
next
  assume h: "cacheDir w ''registry-index'' = Some entry \<and> \<not> truthy (content entry)"
  then show "requests (snd (fetchRegistry env w))
      = requests w @ [REGISTRY_BASE env @ ''/index.json'']"
    using fetchRegistry_falsy_entry(1) [OF assms] by blast
next
  assume h: "cacheDir w ''registry-index'' = Some entry \<and> \<not> truthy (content entry)"
    and f: "fetch env (REGISTRY_BASE env @ ''/index.json'') = Inl e"
  from h have "fetchRegistry env w
      = (Inl e, w\<lparr>requests := requests w @ [REGISTRY_BASE env @ ''/index.json'']\<rparr>)"
    using fetchRegistry_falsy_entry(2) [OF assms _ _ f] by blast
  then show "fst (fetchRegistry env w) = Inl e"
    by simp
next
  assume h: "cacheDir w (''country-'' @ cc) = Some entry \<and> truthy (content entry) \<and>
          now env - mtimeMs entry < 24 * 60 * 60 * 1000"
  then have "cacheDir w (''country-'' @ cc) = Some entry" and "now env - mtimeMs entry < 24 * 60 * 60 * 1000"
    by blast+
  then have c: "readCache env w (''country-'' @ cc) (24 * 60 * 60 * 1000) = content entry"
    by (rule readCache_fresh)
  with h have t: "truthy (readCache env w (''country-'' @ cc) (24 * 60 * 60 * 1000))"
    by simp
  show "fetchCountry env w cc config =
      (case CountryDataSchema (content entry) of
         None \<Rightarrow> (Inr None, warn (CountryDataInvalid cc) w)
       | Some d \<Rightarrow>
           (Inr (Some (filterCountryData d config)),
            writeCache env w (''country-'' @ cc) (json_CountryData d)))"
    using fetchCountry_hit [OF assms t, of config] unfolding c .
next
  assume h: "cacheDir w (''country-'' @ cc) = Some entry \<and> truthy (content entry) \<and>
          \<not> now env - mtimeMs entry < 24 * 60 * 60 * 1000 \<and>
          fetch env (REGISTRY_BASE env @ ''/countries/'' @ cc @ ''.json'') = Inl e"
  then have "cacheDir w (''country-'' @ cc) = Some entry" and "\<not> now env - mtimeMs entry < 24 * 60 * 60 * 1000"
    by blast+
  then have "readCache env w (''country-'' @ cc) (24 * 60 * 60 * 1000) = JNull"
    by (rule readCache_old)
  then have m: "\<not> truthy (readCache env w (''country-'' @ cc) (24 * 60 * 60 * 1000))"
    by simp
  from h have s: "readStaleCache w (''country-'' @ cc) = content entry"
    by (simp add: stale_present)
  from h have f: "fetch env (REGISTRY_BASE env @ ''/countries/'' @ cc @ ''.json'') = Inl e"
    by simp
  show "fetchCountry env w cc config =
      (case CountryDataSchema (content entry) of
         None \<Rightarrow>
           (Inr None,
            warn (CountryDataInvalid cc) (warn NetworkUnavailable
              (w\<lparr>requests := requests w
                   @ [REGISTRY_BASE env @ ''/countries/'' @ cc @ ''.json'']\<rparr>)))
       | Some d \<Rightarrow>
           (Inr (Some (filterCountryData d config)),
            writeCache env (warn NetworkUnavailable
                (w\<lparr>requests := requests w
                     @ [REGISTRY_BASE env @ ''/countries/'' @ cc @ ''.json'']\<rparr>))
              (''country-'' @ cc) (json_CountryData d)))"
    using fetchCountry_failed [OF assms m f, of config] h unfolding s
    by (simp add: Let_def split: option.splits)
next
  assume h: "cacheDir w (''country-'' @ cc) = Some entry \<and> \<not> truthy (content entry)"
  then show "requests (snd (fetchCountry env w cc config))
      = requests w @ [REGISTRY_BASE env @ ''/countries/'' @ cc @ ''.json'']"
    using fetchCountry_falsy_entry(1) [OF assms] by blast
next
  assume h: "cacheDir w (''country-'' @ cc) = Some entry \<and> \<not> truthy (content entry)"
    and f: "fetch env (REGISTRY_BASE env @ ''/countries/'' @ cc @ ''.json'') = Inl e"
  from h have "fetchCountry env w cc config
      = (Inl e, w\<lparr>requests := requests w @ [REGISTRY_BASE env @ ''/countries/'' @ cc @ ''.json'']\<rparr>)"
    using fetchCountry_falsy_entry(2) [OF assms _ _ f] by blast
  then show "fst (fetchCountry env w cc config) = Inl e"
    by simp
qed

text \<open>
  The theorem at a fresh entry that holds the sample country, which is returned in
  projection and written back, at a two-day-old entry that holds \<open>{}\<close> with the
  network unreachable, where the call warns twice and returns \<open>null\<close>, and at a fresh
  entry that holds \<open>false\<close> with the network unreachable, where the network is asked and
  the call is rejected.
\<close>

theorem cache_hit_is_validated_witness:
  "isRemoteRegistry (REGISTRY_BASE (remoteEnv unreachable 1000)) \<and>
   cacheDir (cachedWorld ''country-sa'' (json_CountryData sampleCountry) 0) (''country-'' @ ''sa'')
     = Some \<lparr>content = json_CountryData sampleCountry, mtimeMs = 0\<rparr> \<and>
   truthy (json_CountryData sampleCountry) \<and>
   now (remoteEnv unreachable 1000) - 0 < 24 * 60 * 60 * 1000 \<and>
   fetchCountry (remoteEnv unreachable 1000)
      (cachedWorld ''country-sa'' (json_CountryData sampleCountry) 0) ''sa'' (makeConfig [''ar''] False)
     = (Inr (Some (filterCountryData sampleCountry (makeConfig [''ar''] False))),
        writeCache (remoteEnv unreachable 1000)
          (cachedWorld ''country-sa'' (json_CountryData sampleCountry) 0)
          ''country-sa'' (json_CountryData sampleCountry)) \<and>
   cacheDir (cachedWorld ''country-sa'' (JObj []) 0) (''country-'' @ ''sa'')
     = Some \<lparr>content = JObj [], mtimeMs = 0\<rparr> \<and>
   truthy (JObj []) \<and>
   \<not> now (remoteEnv unreachable 172800000) - 0 < 24 * 60 * 60 * 1000 \<and>
   fetchCountry (remoteEnv unreachable 172800000) (cachedWorld ''country-sa'' (JObj []) 0) ''sa''
      (makeConfig [''ar''] False)
     = (Inr None,
        warn (CountryDataInvalid ''sa'') (warn NetworkUnavailable
          ((cachedWorld ''country-sa'' (JObj []) 0)
             \<lparr>requests := [''https://cdn.example/registry/countries/sa.json'']\<rparr>))) \<and>
   cacheDir (cachedWorld ''country-sa'' (JBool False) 0) (''country-'' @ ''sa'')
     = Some \<lparr>content = JBool False, mtimeMs = 0\<rparr> \<and>
   \<not> truthy (JBool False) \<and>
   fetch (remoteEnv unreachable 1000)
     (REGISTRY_BASE (remoteEnv unreachable 1000) @ ''/countries/'' @ ''sa'' @ ''.json'')
     = Inl (Error ''fetch failed'') \<and>
   requests (snd (fetchCountry (remoteEnv unreachable 1000)
                    (cachedWorld ''country-sa'' (JBool False) 0) ''sa'' (makeConfig [''ar''] False)))
     = [''https://cdn.example/registry/countries/sa.json''] \<and>
   fst (fetchCountry (remoteEnv unreachable 1000)
          (cachedWorld ''country-sa'' (JBool False) 0) ''sa'' (makeConfig [''ar''] False))
     = Inl (Error ''fetch failed'')"
proof -
  define env where "env = remoteEnv unreachable 1000"
  define falsy where "falsy = cachedWorld ''country-sa'' (JBool False) 0"
  define late where "late = remoteEnv unreachable 172800000"
  define good where "good = cachedWorld ''country-sa'' (json_CountryData sampleCountry) 0"
  define bad where "bad = cachedWorld ''country-sa'' (JObj []) 0"
  define config where "config = makeConfig [''ar''] False"
  have r: "isRemoteRegistry (REGISTRY_BASE env)" and r': "isRemoteRegistry (REGISTRY_BASE late)"
    by (simp_all add: env_def late_def)
  have e1: "cacheDir good (''country-'' @ ''sa'')
      = Some \<lparr>content = json_CountryData sampleCountry, mtimeMs = 0\<rparr>"
    and e2: "cacheDir bad (''country-'' @ ''sa'') = Some \<lparr>content = JObj [], mtimeMs = 0\<rparr>"
    by (simp_all add: good_def bad_def)
  have t1: "truthy (json_CountryData sampleCountry)" and t2: "truthy (JObj [])"
    by (simp_all add: json_CountryData_def)
  have a1: "now env - 0 < 24 * 60 * 60 * 1000" and a2: "\<not> now late - 0 < 24 * 60 * 60 * 1000"
    by (simp_all add: env_def late_def)
  have down: "fetch late (REGISTRY_BASE late @ ''/countries/'' @ ''sa'' @ ''.json'')
      = Inl (Error ''fetch failed'')"
    by (simp add: late_def unreachable_def)
  have v1: "CountryDataSchema (json_CountryData sampleCountry) = Some sampleCountry"
    by (rule CountryData_roundtrip)
  have v2: "CountryDataSchema (JObj []) = None"
    by (simp add: CountryDataSchema_def z_required_def)
  have u: "REGISTRY_BASE late @ ''/countries/'' @ ''sa'' @ ''.json''
      = ''https://cdn.example/registry/countries/sa.json''"
    by (simp add: late_def remoteEnv_def)
  have q: "requests bad = []"
    by (simp add: bad_def)
  from cache_hit_is_validated [OF r, where w = good and cc = "''sa''" and config = config
      and entry = "\<lparr>content = json_CountryData sampleCountry, mtimeMs = 0\<rparr>"] e1 t1 a1
  have 1: "fetchCountry env good ''sa'' config
      = (Inr (Some (filterCountryData sampleCountry config)),
         writeCache env good ''country-sa'' (json_CountryData sampleCountry))"
    by (simp add: v1)
  from cache_hit_is_validated [OF r', where w = bad and cc = "''sa''" and config = config
      and entry = "\<lparr>content = JObj [], mtimeMs = 0\<rparr>" and e = "Error ''fetch failed''"]
    e2 t2 a2 down
  have 2: "fetchCountry late bad ''sa'' config
      = (Inr None,
         warn (CountryDataInvalid ''sa'') (warn NetworkUnavailable
           (bad\<lparr>requests := [''https://cdn.example/registry/countries/sa.json'']\<rparr>)))"
    unfolding u by (simp add: v2 q)
  have e3: "cacheDir falsy (''country-'' @ ''sa'') = Some \<lparr>content = JBool False, mtimeMs = 0\<rparr>"
    by (simp add: falsy_def)
  have t3: "\<not> truthy (JBool False)"
    by simp
  have down': "fetch env (REGISTRY_BASE env @ ''/countries/'' @ ''sa'' @ ''.json'')
      = Inl (Error ''fetch failed'')"
    by (simp add: env_def unreachable_def)
  have u': "REGISTRY_BASE env @ ''/countries/'' @ ''sa'' @ ''.json''
      = ''https://cdn.example/registry/countries/sa.json''"
    by (simp add: env_def remoteEnv_def)
  have q': "requests falsy = []"
    by (simp add: falsy_def)
  from cache_hit_is_validated [OF r, where w = falsy and cc = "''sa''" and config = config
      and entry = "\<lparr>content = JBool False, mtimeMs = 0\<rparr>" and e = "Error ''fetch failed''"]
    e3 t3 down'
  have 3: "requests (snd (fetchCountry env falsy ''sa'' config))
        = [''https://cdn.example/registry/countries/sa.json''] \<and>
      fst (fetchCountry env falsy ''sa'' config) = Inl (Error ''fetch failed'')"
    unfolding u' by (simp add: q')
  from r e1 t1 a1 1 e2 t2 a2 2 e3 t3 down' 3 show ?thesis
    unfolding env_def late_def good_def bad_def falsy_def config_def by simp
qed

text \<open>
  Claim C3 as stated fails: a fresh cache file that holds \<open>{}\<close> is a cache hit, and the
  call validates it, warns and returns \<open>null\<close>.
\<close>

theorem invalid_cache_hit_counterexample:
  "truthy (readCache (remoteEnv unreachable 1000) (cachedWorld ''country-sa'' (JObj []) 0)
      (''country-'' @ ''sa'') (24 * 60 * 60 * 1000)) \<and>
   CountryDataSchema (JObj []) = None \<and>
   fetchCountry (remoteEnv unreachable 1000) (cachedWorld ''country-sa'' (JObj []) 0) ''sa''
      (makeConfig [''en''] True)
     = (Inr None, warn (CountryDataInvalid ''sa'') (cachedWorld ''country-sa'' (JObj []) 0))"
  by (simp add: fetchCountry_def readCache_def CountryDataSchema_def z_required_def Let_def)

text \<open>
  Claim C4. After \<open>fetchRegistry\<close> or \<open>fetchCountry\<close> has returned data against a remote
  registry, a second call for the same key, made while the entry written by the first is
  younger than the window (one hour for the index, 24 hours for a country), makes no
  network request and returns the same data.
\<close>

theorem fresh_entry_not_refetched:
  assumes "isRemoteRegistry (REGISTRY_BASE env1)"
    and "isRemoteRegistry (REGISTRY_BASE env2)"
  shows "(fetchRegistry env1 w0 = (Inr (Some idx), w1) \<and>
          now env2 - writeTime env1 < 60 * 60 * 1000 \<longrightarrow>
            requests (snd (fetchRegistry env2 w1)) = requests w1 \<and>
            fst (fetchRegistry env2 w1) = Inr (Some idx)) \<and>
         (fetchCountry env1 w0 cc config = (Inr (Some view), w1) \<and>
          now env2 - writeTime env1 < 24 * 60 * 60 * 1000 \<longrightarrow>
            requests (snd (fetchCountry env2 w1 cc config)) = requests w1 \<and>
            fst (fetchCountry env2 w1 cc config) = Inr (Some view))"
proof (intro conjI impI)
  assume h: "fetchRegistry env1 w0 = (Inr (Some idx), w1) \<and>
          now env2 - writeTime env1 < 60 * 60 * 1000"
  then obtain w' where w1: "w1 = writeCache env1 w' ''registry-index'' (json_RegistryIndex idx)"
    using fetchRegistry_success [OF assms(1)] by blast
  have c: "readCache env2 w1 ''registry-index'' (60 * 60 * 1000) = json_RegistryIndex idx"
    unfolding w1 using h by (intro readCache_written) simp
  have t: "truthy (readCache env2 w1 ''registry-index'' (60 * 60 * 1000))"
    unfolding c by (simp add: json_RegistryIndex_def)
  show "requests (snd (fetchRegistry env2 w1)) = requests w1"
    and "fst (fetchRegistry env2 w1) = Inr (Some idx)"
    using fetchRegistry_hit [OF assms(2) t] unfolding c by (simp_all add: RegistryIndex_roundtrip)
next
  assume h: "fetchCountry env1 w0 cc config = (Inr (Some view), w1) \<and>
          now env2 - writeTime env1 < 24 * 60 * 60 * 1000"
  then obtain full w' where v: "view = filterCountryData full config"
    and w1: "w1 = writeCache env1 w' (''country-'' @ cc) (json_CountryData full)"
    using fetchCountry_success [OF assms(1)] by blast
  have c: "readCache env2 w1 (''country-'' @ cc) (24 * 60 * 60 * 1000) = json_CountryData full"
    unfolding w1 using h by (intro readCache_written) simp
  have t: "truthy (readCache env2 w1 (''country-'' @ cc) (24 * 60 * 60 * 1000))"
    unfolding c by (simp add: json_CountryData_def)
  show "requests (snd (fetchCountry env2 w1 cc config)) = requests w1"
    and "fst (fetchCountry env2 w1 cc config) = Inr (Some view)"
    using fetchCountry_hit [OF assms(2) t, of config] unfolding c
    by (simp_all add: CountryData_roundtrip v)
qed

text \<open>
  The theorem at a first download of \<open>sa\<close> and a second call one hour later with the
  network unreachable: one request in all, and the same projection.
\<close>

theorem fresh_entry_not_refetched_witness:
  "isRemoteRegistry (REGISTRY_BASE (remoteEnv (serving (json_CountryData sampleCountry)) 0)) \<and>
   isRemoteRegistry (REGISTRY_BASE (remoteEnv unreachable 3600000)) \<and>
   fst (fetchCountry (remoteEnv (serving (json_CountryData sampleCountry)) 0) emptyWorld ''sa''
          (makeConfig [''ar''] False))
     = Inr (Some (filterCountryData sampleCountry (makeConfig [''ar''] False))) \<and>
   now (remoteEnv unreachable 3600000)
     - writeTime (remoteEnv (serving (json_CountryData sampleCountry)) 0) < 24 * 60 * 60 * 1000 \<and>
   requests (snd (fetchCountry (remoteEnv (serving (json_CountryData sampleCountry)) 0) emptyWorld
          ''sa'' (makeConfig [''ar''] False)))
     = [''https://cdn.example/registry/countries/sa.json''] \<and>
   requests (snd (fetchCountry (remoteEnv unreachable 3600000)
          (snd (fetchCountry (remoteEnv (serving (json_CountryData sampleCountry)) 0) emptyWorld
                  ''sa'' (makeConfig [''ar''] False)))
          ''sa'' (makeConfig [''ar''] False)))
     = [''https://cdn.example/registry/countries/sa.json''] \<and>
   fst (fetchCountry (remoteEnv unreachable 3600000)
          (snd (fetchCountry (remoteEnv (serving (json_CountryData sampleCountry)) 0) emptyWorld
                  ''sa'' (makeConfig [''ar''] False)))
          ''sa'' (makeConfig [''ar''] False))
     = Inr (Some (filterCountryData sampleCountry (makeConfig [''ar''] False)))"
proof -
  define env1 where "env1 = remoteEnv (serving (json_CountryData sampleCountry)) 0"
  define env2 where "env2 = remoteEnv unreachable 3600000"
  define config where "config = makeConfig [''ar''] False"
  define w1 where "w1 = snd (fetchCountry env1 emptyWorld ''sa'' config)"
  have r1: "isRemoteRegistry (REGISTRY_BASE env1)" and r2: "isRemoteRegistry (REGISTRY_BASE env2)"
    by (simp_all add: env1_def env2_def)
  have first: "fetchCountry env1 emptyWorld ''sa'' config
      = (Inr (Some (filterCountryData sampleCountry config)), w1)"
    unfolding w1_def env1_def by (simp add: first_download)
  have soon: "now env2 - writeTime env1 < 24 * 60 * 60 * 1000"
    by (simp add: env1_def env2_def)
  have q: "requests w1 = [''https://cdn.example/registry/countries/sa.json'']"
    unfolding w1_def env1_def first_download by (simp add: emptyWorld_def)
  from fresh_entry_not_refetched [OF r1 r2, where ?w0.0 = emptyWorld and cc = "''sa''"
      and config = config and view = "filterCountryData sampleCountry config" and ?w1.0 = w1]
    first soon
  have 1: "requests (snd (fetchCountry env2 w1 ''sa'' config)) = requests w1"
    and 2: "fst (fetchCountry env2 w1 ''sa'' config) = Inr (Some (filterCountryData sampleCountry config))"
    by blast+
  from first have 0: "fst (fetchCountry env1 emptyWorld ''sa'' config)
      = Inr (Some (filterCountryData sampleCountry config))"
    by simp
  from r1 r2 0 soon q 1 2 show ?thesis
    unfolding w1_def env1_def env2_def config_def by simp
qed

text \<open>
  Claim C10. When \<open>fetchCountry\<close> returns data against a remote registry, there is a full
  dataset, the validated payload, such that the returned value is its projection under the
  caller's config, the cache file of the country holds that full dataset, the same call with
  any other config leaves the same world, and a later call served from the cache with any
  config returns the projection of the full dataset under that config.
\<close>

theorem cache_holds_unfiltered_dataset:
  assumes "isRemoteRegistry (REGISTRY_BASE env)"
    and "fetchCountry env w cc config = (Inr (Some view), w1)"
  shows "\<exists>full.
           view = filterCountryData full config \<and>
           cacheDir w1 (''country-'' @ cc)
             = Some \<lparr>content = json_CountryData full, mtimeMs = writeTime env\<rparr> \<and>
           CountryDataSchema (json_CountryData full) = Some full \<and>
           (\<forall>body. \<not> truthy (readCache env w (''country-'' @ cc) (24 * 60 * 60 * 1000)) \<and>
                   fetch env (REGISTRY_BASE env @ ''/countries/'' @ cc @ ''.json'') = Inr body \<longrightarrow>
                   CountryDataSchema body = Some full) \<and>
           (\<forall>config'. fetchCountry env w cc config'
                        = (Inr (Some (filterCountryData full config')), w1)) \<and>
           (\<forall>env' config'. isRemoteRegistry (REGISTRY_BASE env') \<and>
                   now env' - writeTime env < 24 * 60 * 60 * 1000 \<longrightarrow>
                   fst (fetchCountry env' w1 cc config')
                     = Inr (Some (filterCountryData full config')) \<and>
                   requests (snd (fetchCountry env' w1 cc config')) = requests w1)"
proof -
  from fetchCountry_success [OF assms] obtain full w'
    where v: "view = filterCountryData full config"
      and w1: "w1 = writeCache env w' (''country-'' @ cc) (json_CountryData full)"
      and any: "\<And>config'. fetchCountry env w cc config'
                  = (Inr (Some (filterCountryData full config')), w1)"
    by blast
  have entry: "cacheDir w1 (''country-'' @ cc)
      = Some \<lparr>content = json_CountryData full, mtimeMs = writeTime env\<rparr>"
    by (simp add: w1)
  have fetched: "CountryDataSchema body = Some full"
    if "\<not> truthy (readCache env w (''country-'' @ cc) (24 * 60 * 60 * 1000)) \<and>
        fetch env (REGISTRY_BASE env @ ''/countries/'' @ cc @ ''.json'') = Inr body" for body
  proof -
    from that fetchCountry_fetched [OF assms(1), of w cc body config] assms(2)
    obtain d where d: "CountryDataSchema body = Some d"
      and "cacheDir w1 (''country-'' @ cc)
            = Some \<lparr>content = json_CountryData d, mtimeMs = writeTime env\<rparr>"
      by (auto simp: Let_def split: option.splits)
    with entry have "json_CountryData d = json_CountryData full"
      by simp
    with d show ?thesis
      by (simp add: json_CountryData_inj)
  qed
  have later: "fst (fetchCountry env' w1 cc config') = Inr (Some (filterCountryData full config')) \<and>
               requests (snd (fetchCountry env' w1 cc config')) = requests w1"
    if "isRemoteRegistry (REGISTRY_BASE env') \<and> now env' - writeTime env < 24 * 60 * 60 * 1000"
    for env' config'
  proof -
    have c: "readCache env' w1 (''country-'' @ cc) (24 * 60 * 60 * 1000) = json_CountryData full"
      unfolding w1 using that by (intro readCache_written) simp
    have t: "truthy (readCache env' w1 (''country-'' @ cc) (24 * 60 * 60 * 1000))"
      unfolding c by (simp add: json_CountryData_def)
    from that have r: "isRemoteRegistry (REGISTRY_BASE env')"
      by simp
    show ?thesis
      using fetchCountry_hit [OF r t, of config'] unfolding c
      by (simp add: CountryData_roundtrip)
  qed
  from v entry fetched any later show ?thesis
    by (intro exI [of _ full]) (simp add: CountryData_roundtrip)
qed

text \<open>
  The theorem at a download with \<open>languages = ["en"]\<close> and no coordinates: the cache holds
  the whole sample country, and a later call with Arabic, French and coordinates is served
  from it.
\<close>

theorem cache_holds_unfiltered_dataset_witness:
  "isRemoteRegistry (REGISTRY_BASE (remoteEnv (serving (json_CountryData sampleCountry)) 0)) \<and>
   fst (fetchCountry (remoteEnv (serving (json_CountryData sampleCountry)) 0) emptyWorld ''sa''
          (makeConfig [''en''] False))
     = Inr (Some (filterCountryData sampleCountry (makeConfig [''en''] False))) \<and>
   cacheDir (snd (fetchCountry (remoteEnv (serving (json_CountryData sampleCountry)) 0) emptyWorld
          ''sa'' (makeConfig [''en''] False))) ''country-sa''
     = Some \<lparr>content = json_CountryData sampleCountry, mtimeMs = 0\<rparr> \<and>
   fst (fetchCountry (remoteEnv unreachable 1000)
          (snd (fetchCountry (remoteEnv (serving (json_CountryData sampleCountry)) 0) emptyWorld
                  ''sa'' (makeConfig [''en''] False)))
          ''sa'' (makeConfig [''ar'', ''fr''] True))
     = Inr (Some (filterCountryData sampleCountry (makeConfig [''ar'', ''fr''] True)))"
proof -
  define env where "env = remoteEnv (serving (json_CountryData sampleCountry)) 0"
  define env' where "env' = remoteEnv unreachable 1000"
  define config where "config = makeConfig [''en''] False"
  define config' where "config' = makeConfig [''ar'', ''fr''] True"
  define w1 where "w1 = snd (fetchCountry env emptyWorld ''sa'' config)"
  have r: "isRemoteRegistry (REGISTRY_BASE env)" and r': "isRemoteRegistry (REGISTRY_BASE env')"
    by (simp_all add: env_def env'_def)
  have first: "fetchCountry env emptyWorld ''sa'' config
      = (Inr (Some (filterCountryData sampleCountry config)), w1)"
    unfolding w1_def env_def by (simp add: first_download)
  have miss: "\<not> truthy (readCache env emptyWorld (''country-'' @ ''sa'') (24 * 60 * 60 * 1000))"
    by (simp add: readCache_def emptyWorld_def)
  have body: "fetch env (REGISTRY_BASE env @ ''/countries/'' @ ''sa'' @ ''.json'')
      = Inr (json_CountryData sampleCountry)"
    by (simp add: env_def serving_def)
  have soon: "now env' - writeTime env < 24 * 60 * 60 * 1000"
    by (simp add: env_def env'_def)
  from cache_holds_unfiltered_dataset [OF r first] obtain full
    where entry: "cacheDir w1 (''country-'' @ ''sa'')
             = Some \<lparr>content = json_CountryData full, mtimeMs = writeTime env\<rparr>"
      and fetched: "\<And>body. \<not> truthy (readCache env emptyWorld (''country-'' @ ''sa'') (24 * 60 * 60 * 1000)) \<and>
                   fetch env (REGISTRY_BASE env @ ''/countries/'' @ ''sa'' @ ''.json'') = Inr body \<Longrightarrow>
                   CountryDataSchema body = Some full"
      and later: "\<And>env' config'. isRemoteRegistry (REGISTRY_BASE env') \<and>
                   now env' - writeTime env < 24 * 60 * 60 * 1000 \<Longrightarrow>
                   fst (fetchCountry env' w1 ''sa'' config')
                     = Inr (Some (filterCountryData full config'))"
    by blast
  from fetched [of "json_CountryData sampleCountry"] miss body
  have full: "full = sampleCountry"
    by (simp add: CountryData_roundtrip)
  have 1: "fst (fetchCountry env emptyWorld ''sa'' config)
      = Inr (Some (filterCountryData sampleCountry config))"
    using first by simp
  have 2: "cacheDir w1 ''country-sa'' = Some \<lparr>content = json_CountryData sampleCountry, mtimeMs = 0\<rparr>"
    using entry unfolding full by (simp add: env_def)
  have 3: "fst (fetchCountry env' w1 ''sa'' config')
      = Inr (Some (filterCountryData sampleCountry config'))"
    using later [of env' config'] r' soon unfolding full by simp
  from r 1 2 3 show ?thesis
    unfolding w1_def env_def env'_def config_def config'_def by simp
qed

section \<open>Claim about code generation\<close>

text \<open>
  Claim C9. The generator lists the country files of \<open>config.outputDir\<close>, the index file
  excluded, and emits their codes sorted: two listings of the same files in any two orders
  give the same generated module, and \<open>getCountryCodes()\<close> returns the same array for
  both, which is sorted and holds the codes of exactly the country files.
\<close>

theorem generated_codes_deterministic:
  assumes "readdirA (outputDir config) = Inr filesA"
    and "readdirB (outputDir config) = Inr filesB"
    and "mset filesA = mset filesB"
  shows "generateIndex render readdirA config = generateIndex render readdirB config \<and>
         getCountryCodes readdirA config = getCountryCodes readdirB config \<and>
         sorted (getCountryCodes readdirA config) \<and>
         mset (getCountryCodes readdirA config)
           = image_mset (\<lambda>f. toUpperCase (replace f ''.json'' ''''))
               (filter_mset (\<lambda>f. endsWith f ''.json'' \<and> f \<noteq> ''index.json'') (mset filesA))"
proof -
  have "mset (map toUpperCase (getInstalledCountries readdirA (outputDir config)))
      = mset (map toUpperCase (getInstalledCountries readdirB (outputDir config)))"
    using assms by (simp add: getInstalledCountries_def)
  then have same: "generateIndex_codes readdirA config = generateIndex_codes readdirB config"
    unfolding generateIndex_codes_def by (rule sort_mset_eq)
  have codes: "mset (generateIndex_codes readdirA config)
      = image_mset (\<lambda>f. toUpperCase (replace f ''.json'' ''''))
          (filter_mset (\<lambda>f. endsWith f ''.json'' \<and> f \<noteq> ''index.json'') (mset filesA))"
    using assms(1)
    by (simp add: generateIndex_codes_def getInstalledCountries_def multiset.map_comp comp_def)
  have "sorted (generateIndex_codes readdirA config)"
    by (simp add: generateIndex_codes_def)
  with codes same show ?thesis
    by (simp add: getCountryCodes_def generateIndex_def)
qed

text \<open>
  The theorem at the scenario of the specification: a directory with \<open>us.json\<close>,
  \<open>sa.json\<close> and the index file, listed in two orders, gives \<open>["SA", "US"]\<close> both times.
\<close>

theorem generated_codes_deterministic_witness:
  "listing [''us.json'', ''sa.json'', ''index.json''] (outputDir (makeConfig [''en''] True))
     = Inr [''us.json'', ''sa.json'', ''index.json''] \<and>
   listing [''index.json'', ''sa.json'', ''us.json''] (outputDir (makeConfig [''en''] True))
     = Inr [''index.json'', ''sa.json'', ''us.json''] \<and>
   mset [''us.json'', ''sa.json'', ''index.json''] = mset [''index.json'', ''sa.json'', ''us.json''] \<and>
   getCountryCodes (listing [''us.json'', ''sa.json'', ''index.json'']) (makeConfig [''en''] True)
     = [''SA'', ''US''] \<and>
   getCountryCodes (listing [''index.json'', ''sa.json'', ''us.json'']) (makeConfig [''en''] True)
     = [''SA'', ''US''] \<and>
   sorted [''SA'', ''US'']"
proof -
  have l1: "listing [''us.json'', ''sa.json'', ''index.json''] (outputDir (makeConfig [''en''] True))
      = Inr [''us.json'', ''sa.json'', ''index.json'']"
    and l2: "listing [''index.json'', ''sa.json'', ''us.json''] (outputDir (makeConfig [''en''] True))
      = Inr [''index.json'', ''sa.json'', ''us.json'']"
    by (simp_all add: listing_def)
  have m: "mset [''us.json'', ''sa.json'', ''index.json''] = mset [''index.json'', ''sa.json'', ''us.json'']"
    by simp
  have first: "getCountryCodes (listing [''us.json'', ''sa.json'', ''index.json''])
      (makeConfig [''en''] True) = [''SA'', ''US'']"
    by (simp add: getCountryCodes_def generateIndex_codes_def getInstalledCountries_def listing_def
          endsWith_def toUpperCase_def)
  note t = generated_codes_deterministic
         [where readdirA = "listing [''us.json'', ''sa.json'', ''index.json'']"
            and readdirB = "listing [''index.json'', ''sa.json'', ''us.json'']"
            and config = "makeConfig [''en''] True", OF l1 l2 m]
  from t
  have e: "getCountryCodes (listing [''us.json'', ''sa.json'', ''index.json'']) (makeConfig [''en''] True)
      = getCountryCodes (listing [''index.json'', ''sa.json'', ''us.json'']) (makeConfig [''en''] True)"
    and s: "sorted (getCountryCodes (listing [''us.json'', ''sa.json'', ''index.json''])
      (makeConfig [''en''] True))"
    by blast+
  have second: "getCountryCodes (listing [''index.json'', ''sa.json'', ''us.json''])
      (makeConfig [''en''] True) = [''SA'', ''US'']"
    using e first by simp
  have "sorted [''SA'', ''US'']"
    using s unfolding first .
  with l1 l2 m first second show ?thesis
    by blast
qed

section \<open>Claim about purity\<close>

text \<open>
  Claim C8. \<open>filterCountryData\<close> is pure and does not mutate its argument. Run in any heap
  on the address of a dataset that reads as \<open>d\<close>, the function returns and only appends
  objects to the heap, so every object that existed before the call, the dataset with its
  regions, cities and name maps among them, is as it was and the argument still reads as
  \<open>d\<close>. The value returned is made of the appended objects alone, so it shares no object
  with the argument, and it reads as \<open>filterCountryData d config\<close>, which depends on
  \<open>d\<close> and the config only. The argument can be filtered again in the resulting heap,
  with any config, to the same effect.
\<close>

theorem filter_leaves_source_unmodified:
  assumes "load_CountryData 0 h data = Some d"
  shows "\<exists>projection e.
           filterCountryData_heap data config h = Some (projection, h @ e) \<and>
           load_CountryData (length h) (h @ e) projection = Some (filterCountryData d config) \<and>
           load_CountryData 0 (h @ e) data = Some d \<and>
           (\<forall>config'. \<exists>projection' e'.
              filterCountryData_heap data config' (h @ e) = Some (projection', (h @ e) @ e') \<and>
              load_CountryData (length (h @ e)) ((h @ e) @ e') projection'
                = Some (filterCountryData d config'))"
proof -
  from filterCountryData_heap_implements [of config] assms
  obtain projection e where run: "filterCountryData_heap data config h = Some (projection, h @ e)"
    and res: "load_CountryData (length h) (h @ e) projection = Some (filterCountryData d config)"
    unfolding implements_def by blast
  have same: "load_CountryData 0 (h @ e) data = Some d"
    using assms by (rule load_CountryData_append)
  have "\<exists>projection' e'.
      filterCountryData_heap data config' (h @ e) = Some (projection', (h @ e) @ e') \<and>
      load_CountryData (length (h @ e)) ((h @ e) @ e') projection'
        = Some (filterCountryData d config')" for config'
    using filterCountryData_heap_implements [of config'] same
    unfolding implements_def by blast
  with run res same show ?thesis
    by blast
qed

text \<open>
  The theorem at a heap that holds one country: the call appends eight objects, the
  country at address 7 reads as before and the projection at address 15 is made of the
  new objects.
\<close>

theorem filter_leaves_source_unmodified_witness:
  "load_CountryData 0 smallHeap 7 = Some smallCountry \<and>
   filterCountryData_heap 7 (makeConfig [''en''] False) smallHeap =
     Some (15, smallHeap @
       [Names [(''en'', ''Test Country'')], Names [(''en'', ''Test Region'')],
        Names [(''en'', ''Zero City'')], CityObj 10 None None,
        Array [11], RegionObj ''01'' 9 12, Array [13],
        CountryObj ''test'' None 8 ''+0'' ''TST'' ''UTC'' ''flag'' 14]) \<and>
   load_CountryData (length smallHeap) (smallHeap @
       [Names [(''en'', ''Test Country'')], Names [(''en'', ''Test Region'')],
        Names [(''en'', ''Zero City'')], CityObj 10 None None,
        Array [11], RegionObj ''01'' 9 12, Array [13],
        CountryObj ''test'' None 8 ''+0'' ''TST'' ''UTC'' ''flag'' 14]) 15
     = Some (filterCountryData smallCountry (makeConfig [''en''] False)) \<and>
   load_CountryData 0 (smallHeap @
       [Names [(''en'', ''Test Country'')], Names [(''en'', ''Test Region'')],
        Names [(''en'', ''Zero City'')], CityObj 10 None None,
        Array [11], RegionObj ''01'' 9 12, Array [13],
        CountryObj ''test'' None 8 ''+0'' ''TST'' ''UTC'' ''flag'' 14]) 7
     = Some smallCountry"
proof -
  from filter_leaves_source_unmodified [OF smallHeap_load, of "makeConfig [''en''] False"]
  obtain projection e
    where run: "filterCountryData_heap 7 (makeConfig [''en''] False) smallHeap
                  = Some (projection, smallHeap @ e)"
      and new: "load_CountryData (length smallHeap) (smallHeap @ e) projection
                  = Some (filterCountryData smallCountry (makeConfig [''en''] False))"
      and old: "load_CountryData 0 (smallHeap @ e) 7 = Some smallCountry"
    by blast
  from run have "projection = 15"
    and "e = [Names [(''en'', ''Test Country'')], Names [(''en'', ''Test Region'')],
        Names [(''en'', ''Zero City'')], CityObj 10 None None,
        Array [11], RegionObj ''01'' 9 12, Array [13],
        CountryObj ''test'' None 8 ''+0'' ''TST'' ''UTC'' ''flag'' 14]"
    unfolding smallHeap_run by simp_all
  with run new old smallHeap_load show ?thesis
    by simp
qed

end
